theory Spec2Isabelle
  imports Main "HOL-Library.Sublist"
begin

section \<open>Python values\<close>

text \<open>
  A Python \<^verbatim>\<open>str\<close> is a sequence of Unicode code points; it is modelled as the list of
  its code points, so that \<^verbatim>\<open>str.strip\<close> and the UTF-8 encoder see what Python sees.
  \<open>py\<close> turns an ASCII literal of the source into that representation.
\<close>

type_synonym pystr = "nat list"

definition py :: "string \<Rightarrow> pystr" where
  "py s = map of_char s"

section \<open>The verse reference validators\<close>

subsection \<open>\<^verbatim>\<open>AltafsirScraper.QURAN_CHAPTERS\<close> (scrape_altafsir_com.py)\<close>

definition QURAN_CHAPTERS :: "(int \<times> (pystr \<times> int)) list" where
  \<open>QURAN_CHAPTERS = [
    (1, (py ''Al-Fatihah'', 7)), (2, (py ''Al-Baqarah'', 286)), (3, (py ''Ali 'Imran'', 200)),
    (4, (py ''An-Nisa'', 176)), (5, (py ''Al-Ma'idah'', 120)), (6, (py ''Al-An'am'', 165)),
    (7, (py ''Al-A'raf'', 206)), (8, (py ''Al-Anfal'', 75)), (9, (py ''At-Tawbah'', 129)),
    (10, (py ''Yunus'', 109)), (11, (py ''Hud'', 123)), (12, (py ''Yusuf'', 111)),
    (13, (py ''Ar-Ra'd'', 43)), (14, (py ''Ibrahim'', 52)), (15, (py ''Al-Hijr'', 99)),
    (16, (py ''An-Nahl'', 128)), (17, (py ''Al-Isra'', 111)), (18, (py ''Al-Kahf'', 110)),
    (19, (py ''Maryam'', 98)), (20, (py ''Taha'', 135)), (21, (py ''Al-Anbya'', 112)),
    (22, (py ''Al-Hajj'', 78)), (23, (py ''Al-Mu'minun'', 118)), (24, (py ''An-Nur'', 64)),
    (25, (py ''Al-Furqan'', 77)), (26, (py ''Ash-Shu'ara'', 227)), (27, (py ''An-Naml'', 93)),
    (28, (py ''Al-Qasas'', 88)), (29, (py ''Al-'Ankabut'', 69)), (30, (py ''Ar-Rum'', 60)),
    (31, (py ''Luqman'', 34)), (32, (py ''As-Sajdah'', 30)), (33, (py ''Al-Ahzab'', 73)),
    (34, (py ''Saba'', 54)), (35, (py ''Fatir'', 45)), (36, (py ''Ya-Sin'', 83)),
    (37, (py ''As-Saffat'', 182)), (38, (py ''Sad'', 88)), (39, (py ''Az-Zumar'', 75)),
    (40, (py ''Ghafir'', 85)), (41, (py ''Fussilat'', 54)), (42, (py ''Ash-Shuraa'', 53)),
    (43, (py ''Az-Zukhruf'', 89)), (44, (py ''Ad-Dukhan'', 59)), (45, (py ''Al-Jathiyah'', 37)),
    (46, (py ''Al-Ahqaf'', 35)), (47, (py ''Muhammad'', 38)), (48, (py ''Al-Fath'', 29)),
    (49, (py ''Al-Hujurat'', 18)), (50, (py ''Qaf'', 45)), (51, (py ''Adh-Dhariyat'', 60)),
    (52, (py ''At-Tur'', 49)), (53, (py ''An-Najm'', 62)), (54, (py ''Al-Qamar'', 55)),
    (55, (py ''Ar-Rahman'', 78)), (56, (py ''Al-Waqi'ah'', 96)), (57, (py ''Al-Hadid'', 29)),
    (58, (py ''Al-Mujadila'', 22)), (59, (py ''Al-Hashr'', 24)), (60, (py ''Al-Mumtahanah'', 13)),
    (61, (py ''As-Saf'', 14)), (62, (py ''Al-Jumu'ah'', 11)), (63, (py ''Al-Munafiqun'', 11)),
    (64, (py ''At-Taghabun'', 18)), (65, (py ''At-Talaq'', 12)), (66, (py ''At-Tahrim'', 12)),
    (67, (py ''Al-Mulk'', 30)), (68, (py ''Al-Qalam'', 52)), (69, (py ''Al-Haqqah'', 52)),
    (70, (py ''Al-Ma'arij'', 44)), (71, (py ''Nuh'', 28)), (72, (py ''Al-Jinn'', 28)),
    (73, (py ''Al-Muzzammil'', 20)), (74, (py ''Al-Muddaththir'', 56)), (75, (py ''Al-Qiyamah'', 40)),
    (76, (py ''Al-Insan'', 31)), (77, (py ''Al-Mursalat'', 50)), (78, (py ''An-Naba'', 40)),
    (79, (py ''An-Nazi'at'', 46)), (80, (py ''\'Abasa'', 42)), (81, (py ''At-Takwir'', 29)),
    (82, (py ''Al-Infitar'', 19)), (83, (py ''Al-Mutaffifin'', 36)), (84, (py ''Al-Inshiqaq'', 25)),
    (85, (py ''Al-Buruj'', 22)), (86, (py ''At-Tariq'', 17)), (87, (py ''Al-A'la'', 19)),
    (88, (py ''Al-Ghashiyah'', 26)), (89, (py ''Al-Fajr'', 30)), (90, (py ''Al-Balad'', 20)),
    (91, (py ''Ash-Shams'', 15)), (92, (py ''Al-Layl'', 21)), (93, (py ''Ad-Duhaa'', 11)),
    (94, (py ''Ash-Sharh'', 8)), (95, (py ''At-Tin'', 8)), (96, (py ''Al-'Alaq'', 19)),
    (97, (py ''Al-Qadr'', 5)), (98, (py ''Al-Bayyinah'', 8)), (99, (py ''Az-Zalzalah'', 8)),
    (100, (py ''Al-'Adiyat'', 11)), (101, (py ''Al-Qari'ah'', 11)), (102, (py ''At-Takathur'', 8)),
    (103, (py ''Al-'Asr'', 3)), (104, (py ''Al-Humazah'', 9)), (105, (py ''Al-Fil'', 5)),
    (106, (py ''Quraysh'', 4)), (107, (py ''Al-Ma'un'', 7)), (108, (py ''Al-Kawthar'', 3)),
    (109, (py ''Al-Kafirun'', 6)), (110, (py ''An-Nasr'', 3)), (111, (py ''Al-Masad'', 5)),
    (112, (py ''Al-Ikhlas'', 4)), (113, (py ''Al-Falaq'', 5)), (114, (py ''An-Nas'', 6))]\<close>

subsection \<open>\<^verbatim>\<open>VERSE_COUNTS\<close>, local to \<^verbatim>\<open>validate_verse_reference\<close> (config_utils.py)\<close>

definition VERSE_COUNTS :: "(int \<times> int) list" where
  "VERSE_COUNTS = [
    (1, 7), (2, 286), (3, 200), (4, 176), (5, 120), (6, 165), (7, 206), (8, 75), (9, 129), (10, 109),
    (11, 123), (12, 111), (13, 43), (14, 52), (15, 99), (16, 128), (17, 111), (18, 110), (19, 98), (20, 135),
    (21, 112), (22, 78), (23, 118), (24, 64), (25, 77), (26, 227), (27, 93), (28, 88), (29, 69), (30, 60),
    (31, 34), (32, 30), (33, 73), (34, 54), (35, 45), (36, 83), (37, 182), (38, 88), (39, 75), (40, 85),
    (41, 54), (42, 53), (43, 89), (44, 59), (45, 37), (46, 35), (47, 38), (48, 29), (49, 18), (50, 45),
    (51, 60), (52, 49), (53, 62), (54, 55), (55, 78), (56, 96), (57, 29), (58, 22), (59, 24), (60, 13),
    (61, 14), (62, 11), (63, 11), (64, 18), (65, 12), (66, 12), (67, 30), (68, 52), (69, 52), (70, 44),
    (71, 28), (72, 28), (73, 20), (74, 56), (75, 40), (76, 31), (77, 50), (78, 40), (79, 46), (80, 42),
    (81, 29), (82, 19), (83, 36), (84, 25), (85, 22), (86, 17), (87, 19), (88, 26), (89, 30), (90, 20),
    (91, 15), (92, 21), (93, 11), (94, 8), (95, 8), (96, 19), (97, 5), (98, 8), (99, 8), (100, 11),
    (101, 11), (102, 8), (103, 3), (104, 9), (105, 5), (106, 4), (107, 7), (108, 3), (109, 6), (110, 3),
    (111, 5), (112, 4), (113, 5), (114, 6)]"

text \<open>
  \<^verbatim>\<open>config_utils.validate_verse_reference(chapter, verse)\<close>. The membership test
  \<^verbatim>\<open>chapter not in VERSE_COUNTS\<close> is the \<open>None\<close> branch of the lookup.
\<close>

definition validate_verse_reference :: "int \<Rightarrow> int \<Rightarrow> bool" where
  "validate_verse_reference chapter verse =
     (if chapter < 1 \<or> chapter > 114 then False
      else case map_of VERSE_COUNTS chapter of
             None \<Rightarrow> False
           | Some max_verses \<Rightarrow> 1 \<le> verse \<and> verse \<le> max_verses)"

text \<open>
  \<^verbatim>\<open>AltafsirScraper.validate_verse_reference(self, chapter, verse)\<close>: the same shape, over
  the class table, whose entries are (name, verse count) pairs.
\<close>

definition scraper_validate_verse_reference :: "int \<Rightarrow> int \<Rightarrow> bool" where
  "scraper_validate_verse_reference chapter verse =
     (if chapter < 1 \<or> chapter > 114 then False
      else case map_of QURAN_CHAPTERS chapter of
             None \<Rightarrow> False
           | Some entry \<Rightarrow> 1 \<le> verse \<and> verse \<le> snd entry)"

section \<open>JSON values and the Python operations used on them\<close>

text \<open>
  What \<^verbatim>\<open>json.load\<close> returns. A float is kept as an opaque pair (mantissa, decimal
  exponent), so it is a number (not NaN): no function modelled below computes with one. A dict is the list of its
  items in insertion order; the keys of a parsed dict are pairwise distinct.
\<close>

datatype json =
    JNull
  | JBool bool
  | JInt int
  | JFloat int int
  | JStr pystr
  | JList "json list"
  | JDict "(pystr \<times> json) list"

datatype exn =
    TypeError
  | AttributeError
  | KeyError
  | ZeroDivisionError
  | UnicodeEncodeError
  | OSError
  | JSONDecodeError
  | OverflowError
  | DatabaseError

text \<open>\<^verbatim>\<open>x.get(key, default)\<close>: only a dict has the method.\<close>

fun py_get :: "json \<Rightarrow> pystr \<Rightarrow> json \<Rightarrow> exn + json" where
  "py_get (JDict items) key dflt =
     Inr (case map_of items key of None \<Rightarrow> dflt | Some v \<Rightarrow> v)"
| "py_get _ key dflt = Inl AttributeError"

text \<open>\<^verbatim>\<open>x[key]\<close> with a string key.\<close>

fun py_getitem :: "json \<Rightarrow> pystr \<Rightarrow> exn + json" where
  "py_getitem (JDict items) key =
     (case map_of items key of None \<Rightarrow> Inl KeyError | Some v \<Rightarrow> Inr v)"
| "py_getitem _ key = Inl TypeError"

text \<open>
  \<^verbatim>\<open>key in x\<close> with a string key: key membership for a dict, element membership for
  a list, substring test for a string, \<^verbatim>\<open>TypeError\<close> for everything else.
\<close>

fun py_contains :: "pystr \<Rightarrow> json \<Rightarrow> exn + bool" where
  "py_contains key (JDict items) = Inr (key \<in> set (map fst items))"
| "py_contains key (JList xs) = Inr (JStr key \<in> set xs)"
| "py_contains key (JStr s) = Inr (sublist key s)"
| "py_contains key _ = Inl TypeError"

text \<open>\<^verbatim>\<open>all(key in x for key in keys)\<close>: stops at the first key that is missing.\<close>

fun py_all_in :: "pystr list \<Rightarrow> json \<Rightarrow> exn + bool" where
  "py_all_in [] x = Inr True"
| "py_all_in (key # keys) x =
     (case py_contains key x of
        Inl e \<Rightarrow> Inl e
      | Inr b \<Rightarrow> if b then py_all_in keys x else Inr False)"

text \<open>\<^verbatim>\<open>len(x)\<close>.\<close>

fun py_len :: "json \<Rightarrow> exn + int" where
  "py_len (JDict items) = Inr (int (length items))"
| "py_len (JList xs) = Inr (int (length xs))"
| "py_len (JStr s) = Inr (int (length s))"
| "py_len _ = Inl TypeError"

text \<open>\<^verbatim>\<open>x.items()\<close>.\<close>

fun py_items :: "json \<Rightarrow> exn + (pystr \<times> json) list" where
  "py_items (JDict items) = Inr items"
| "py_items _ = Inl AttributeError"

text \<open>\<^verbatim>\<open>isinstance(x, dict)\<close>.\<close>

fun is_dict :: "json \<Rightarrow> bool" where
  "is_dict (JDict items) = True"
| "is_dict _ = False"

text \<open>
  \<^verbatim>\<open>str.isspace\<close> on one code point, and \<^verbatim>\<open>str.strip()\<close>, which removes such code
  points from both ends.
\<close>

definition py_isspace :: "nat \<Rightarrow> bool" where
  "py_isspace c =
     ((9 \<le> c \<and> c \<le> 13) \<or> (28 \<le> c \<and> c \<le> 32) \<or> c = 133 \<or> c = 160 \<or> c = 5760
      \<or> (8192 \<le> c \<and> c \<le> 8202) \<or> c = 8232 \<or> c = 8233 \<or> c = 8239 \<or> c = 8287
      \<or> c = 12288)"

definition py_strip :: "pystr \<Rightarrow> pystr" where
  "py_strip s = rev (dropWhile py_isspace (rev (dropWhile py_isspace s)))"

text \<open>\<^verbatim>\<open>x.strip()\<close> on a JSON value: only a string has the method.\<close>

fun py_strip_value :: "json \<Rightarrow> exn + pystr" where
  "py_strip_value (JStr s) = Inr (py_strip s)"
| "py_strip_value _ = Inl AttributeError"

text \<open>
  \<^verbatim>\<open>s.encode('utf-8')\<close>: a surrogate code point cannot be encoded. (A value from
  \<open>0x110000\<close> on is no code point of a Python string; it is rejected as well.)
\<close>

definition utf8_char :: "nat \<Rightarrow> exn + nat list" where
  "utf8_char c =
     (if c < 0x80 then Inr [c]
      else if c < 0x800 then Inr [0xC0 + c div 64, 0x80 + c mod 64]
      else if 0xD800 \<le> c \<and> c \<le> 0xDFFF then Inl UnicodeEncodeError
      else if c < 0x10000 then
        Inr [0xE0 + c div 4096, 0x80 + (c div 64) mod 64, 0x80 + c mod 64]
      else if c < 0x110000 then
        Inr [0xF0 + c div 262144, 0x80 + (c div 4096) mod 64,
             0x80 + (c div 64) mod 64, 0x80 + c mod 64]
      else Inl UnicodeEncodeError)"

fun utf8_encode :: "pystr \<Rightarrow> exn + nat list" where
  "utf8_encode [] = Inr []"
| "utf8_encode (c # cs) =
     (case utf8_char c of
        Inl e \<Rightarrow> Inl e
      | Inr bs \<Rightarrow> (case utf8_encode cs of Inl e \<Rightarrow> Inl e | Inr rest \<Rightarrow> Inr (bs @ rest)))"

text \<open>\<^verbatim>\<open>a % b\<close> on integers: the sign of the result follows the divisor, as in HOL.\<close>

definition py_mod :: "int \<Rightarrow> int \<Rightarrow> exn + int" where
  "py_mod a b = (if b = 0 then Inl ZeroDivisionError else Inr (a mod b))"

section \<open>The importer (import_altafsir_data.py)\<close>

subsection \<open>The store\<close>

text \<open>
  The three tables of \<^verbatim>\<open>create_tables\<close>, each as the list of its rows in insertion
  order. The columns filled by the engine (\<^verbatim>\<open>id\<close>, \<^verbatim>\<open>created_at\<close>, \<^verbatim>\<open>updated_at\<close>,
  \<^verbatim>\<open>import_date\<close>) and the wall-clock \<^verbatim>\<open>duration_seconds\<close> are left out. A column
  holds the Python value that was bound to it.
\<close>

record verse_row =
  verse_key :: pystr
  chapter_number :: json
  verse_number :: json
  translation_id :: json
  translation_name :: json
  author_name :: json
  language_code :: json
  text_column :: pystr
  resource_type :: pystr
  data_hash :: pystr

record metadata_row =
  meta_translation_id :: json
  meta_name :: json
  meta_author :: json
  meta_language_code :: json
  meta_description :: pystr
  meta_source_url :: json
  meta_total_verses :: int
  meta_file_path :: pystr
  meta_data_checksum :: pystr

datatype message = Text pystr | Str_of exn

record log_entry =
  log_file_path :: pystr
  log_translation_id :: json
  verses_imported :: int
  verses_skipped :: int
  status :: pystr
  error_message :: "message option"

record database =
  quran_translations :: "verse_row list"
  tafsir_metadata :: "metadata_row list"
  import_log :: "log_entry list"

text \<open>
  \<^verbatim>\<open>INSERT OR REPLACE\<close> under \<^verbatim>\<open>UNIQUE(verse_key, translation_id) ON CONFLICT REPLACE\<close>:
  the row with the same key, if any, is deleted and the new row is added.
\<close>

definition insert_or_replace :: "verse_row \<Rightarrow> verse_row list \<Rightarrow> verse_row list" where
  "insert_or_replace r table =
     filter (\<lambda>r'. (verse_key r', translation_id r') \<noteq> (verse_key r, translation_id r)) table
       @ [r]"

text \<open>The same for \<^verbatim>\<open>tafsir_metadata\<close>, whose primary key is \<^verbatim>\<open>translation_id\<close>.\<close>

definition replace_metadata :: "metadata_row \<Rightarrow> metadata_row list \<Rightarrow> metadata_row list" where
  "replace_metadata r table =
     filter (\<lambda>r'. meta_translation_id r' \<noteq> meta_translation_id r) table @ [r]"

subsection \<open>What the importer does not control\<close>

text \<open>
  A batch insert can fail for reasons that lie with the store and not with the rows (a
  locked database, a full disk, a size limit): the statement may raise, the commit after
  it may raise, or both go through. The importer is run against any assignment of these
  outcomes to the batches of one call (numbered from 0); the assignment belongs to one
  run. A batch whose rows cannot be bound or stored raises whatever the assignment says
  (see \<open>executemany\<close> below).
  \<^verbatim>\<open>hashlib.md5(...).hexdigest()\<close> and the text that an f-string gives for a value that
  is not a string are library functions; they are parameters as well.
\<close>

datatype batch_outcome = Batch_commits | Executemany_raises | Commit_raises

record environment =
  md5_hexdigest :: "nat list \<Rightarrow> pystr"
  format_value :: "json \<Rightarrow> pystr"
  batch_outcome_of :: "nat \<Rightarrow> batch_outcome"
  metadata_insert_raises :: bool

text \<open>
  A file to import: its path, what \<^verbatim>\<open>open\<close> and \<^verbatim>\<open>json.load\<close> give for it, and what
  reading its bytes gives.
\<close>

record source_file =
  file_path :: pystr
  loaded :: "exn + json"
  raw_bytes :: "exn + nat list"

record ImportStats =
  total_files :: int
  processed_files :: int
  total_verses :: int
  imported_verses :: int
  skipped_verses :: int
  errors :: int

subsection \<open>\<^verbatim>\<open>calculate_data_hash\<close>\<close>

definition calculate_data_hash :: "environment \<Rightarrow> pystr \<Rightarrow> exn + pystr" where
  "calculate_data_hash env text_value =
     (case utf8_encode text_value of
        Inl e \<Rightarrow> Inl e
      | Inr bytes \<Rightarrow> Inr (md5_hexdigest env bytes))"

subsection \<open>\<^verbatim>\<open>validate_tafsir_file\<close>\<close>

definition validate_tafsir_file_try :: "exn + json \<Rightarrow> exn + (bool \<times> json option)" where
  "validate_tafsir_file_try opened =
     (case opened of
        Inl e \<Rightarrow> Inl e
      | Inr data \<Rightarrow>
     (case py_all_in [py ''meta'', py ''chs'', py ''vs''] data of
        Inl e \<Rightarrow> Inl e
      | Inr has_keys \<Rightarrow>
     if \<not> has_keys then Inr (False, None) else
     (case py_getitem data (py ''meta'') of
        Inl e \<Rightarrow> Inl e
      | Inr meta \<Rightarrow>
     (case py_all_in [py ''tid'', py ''tn'', py ''lang''] meta of
        Inl e \<Rightarrow> Inl e
      | Inr has_meta \<Rightarrow>
     if \<not> has_meta then Inr (False, None) else
     (case py_getitem data (py ''vs'') of
        Inl e \<Rightarrow> Inl e
      | Inr verses \<Rightarrow>
     if \<not> is_dict verses then Inr (False, None) else Inr (True, Some data))))))"

text \<open>Both \<^verbatim>\<open>except\<close> clauses return \<^verbatim>\<open>(False, None)\<close>.\<close>

definition validate_tafsir_file :: "exn + json \<Rightarrow> bool \<times> json option" where
  "validate_tafsir_file opened =
     (case validate_tafsir_file_try opened of
        Inl e \<Rightarrow> (False, None)
      | Inr result \<Rightarrow> result)"

subsection \<open>\<^verbatim>\<open>check_existing_tafsir\<close>\<close>

definition check_existing_tafsir :: "database \<Rightarrow> json \<Rightarrow> bool" where
  "check_existing_tafsir db tid =
     (let count = int (length (filter (\<lambda>r. meta_translation_id r = tid) (tafsir_metadata db)))
      in count > 0)"

subsection \<open>\<^verbatim>\<open>import_tafsir_metadata\<close>\<close>

definition py_format :: "environment \<Rightarrow> json \<Rightarrow> pystr" where
  "py_format env v = (case v of JStr s \<Rightarrow> s | _ \<Rightarrow> format_value env v)"

definition import_tafsir_metadata ::
  "environment \<Rightarrow> json \<Rightarrow> source_file \<Rightarrow> database \<Rightarrow> exn + database" where
  "import_tafsir_metadata env tafsir_data file db =
     (case py_getitem tafsir_data (py ''meta'') of Inl e \<Rightarrow> Inl e | Inr meta \<Rightarrow>
     (case py_getitem tafsir_data (py ''vs'') of Inl e \<Rightarrow> Inl e | Inr verses \<Rightarrow>
     (case raw_bytes file of Inl e \<Rightarrow> Inl e | Inr bytes \<Rightarrow>
     (let file_checksum = md5_hexdigest env bytes in
     (case py_getitem meta (py ''tid'') of Inl e \<Rightarrow> Inl e | Inr tid \<Rightarrow>
     (case py_getitem meta (py ''tn'') of Inl e \<Rightarrow> Inl e | Inr tn \<Rightarrow>
     (case py_get meta (py ''au'') (JStr (py ''Unknown'')) of Inl e \<Rightarrow> Inl e | Inr au \<Rightarrow>
     (case py_getitem meta (py ''lang'') of Inl e \<Rightarrow> Inl e | Inr lang \<Rightarrow>
     (case py_get meta (py ''source_url'') (JStr (py ''https://www.altafsir.com'')) of
        Inl e \<Rightarrow> Inl e | Inr source_url \<Rightarrow>
     (case py_len verses of Inl e \<Rightarrow> Inl e | Inr n \<Rightarrow>
     if metadata_insert_raises env then Inl DatabaseError
     else Inr (db\<lparr>tafsir_metadata :=
       replace_metadata
         \<lparr>meta_translation_id = tid, meta_name = tn, meta_author = au,
          meta_language_code = lang,
          meta_description = py ''Imported from altafsir.com - '' @ py_format env tn,
          meta_source_url = source_url, meta_total_verses = n,
          meta_file_path = file_path file, meta_data_checksum = file_checksum\<rparr>
         (tafsir_metadata db)\<rparr>)))))))))))"

subsection \<open>\<^verbatim>\<open>import_verses_batch\<close>\<close>

text \<open>
  What the sqlite3 module does with one value of a tuple when it binds it as a
  parameter: \<^verbatim>\<open>None\<close>, a bool, a float, an int of at most 64 bits and a string that can
  be encoded in UTF-8 are bound; a larger int, a string with a surrogate code point, a
  list and a dict raise. (\<open>DatabaseError\<close> stands for any exception of the module.)
\<close>

fun bind_parameter :: "json \<Rightarrow> exn + unit" where
  "bind_parameter JNull = Inr ()"
| "bind_parameter (JBool b) = Inr ()"
| "bind_parameter (JInt i) =
     (if - (2 ^ 63) \<le> i \<and> i < 2 ^ 63 then Inr () else Inl OverflowError)"
| "bind_parameter (JFloat m e) = Inr ()"
| "bind_parameter (JStr s) =
     (case utf8_encode s of Inl e \<Rightarrow> Inl e | Inr bytes \<Rightarrow> Inr ())"
| "bind_parameter (JList xs) = Inl DatabaseError"
| "bind_parameter (JDict items) = Inl DatabaseError"

text \<open>The parameters of one tuple, bound in the order of the tuple.\<close>

fun bind_parameters :: "json list \<Rightarrow> exn + unit" where
  "bind_parameters [] = Inr ()"
| "bind_parameters (v # vs) =
     (case bind_parameter v of Inl e \<Rightarrow> Inl e | Inr done \<Rightarrow> bind_parameters vs)"

definition bind_row :: "verse_row \<Rightarrow> exn + unit" where
  "bind_row r =
     bind_parameters
       [JStr (verse_key r), chapter_number r, verse_number r, translation_id r,
        translation_name r, author_name r, language_code r, JStr (text_column r),
        JStr (resource_type r), JStr (data_hash r)]"

text \<open>
  The columns declared \<^verbatim>\<open>NOT NULL\<close> without a default in \<^verbatim>\<open>create_tables\<close>: a
  \<^verbatim>\<open>None\<close> in one of them makes the insert raise. (\<^verbatim>\<open>verse_key\<close> and \<^verbatim>\<open>text\<close> are
  strings in every tuple that the importer builds.)
\<close>

definition violates_not_null :: "verse_row \<Rightarrow> bool" where
  "violates_not_null r \<longleftrightarrow>
     chapter_number r = JNull \<or> verse_number r = JNull \<or> translation_id r = JNull
     \<or> translation_name r = JNull \<or> language_code r = JNull"

text \<open>
  \<^verbatim>\<open>cursor.executemany\<close> runs the insert for each tuple in turn inside one transaction
  and raises at the first tuple that cannot be bound or stored;
  \<^verbatim>\<open>cursor.rowcount\<close> after it is the number of tuples; \<^verbatim>\<open>rollback\<close> restores the
  table as it was after the last commit.
\<close>

fun execute_rows :: "verse_row list \<Rightarrow> verse_row list \<Rightarrow> exn + verse_row list" where
  "execute_rows [] table = Inr table"
| "execute_rows (r # rows) table =
     (case bind_row r of
        Inl e \<Rightarrow> Inl e
      | Inr done \<Rightarrow>
          if violates_not_null r then Inl DatabaseError
          else execute_rows rows (insert_or_replace r table))"

definition executemany ::
  "batch_outcome \<Rightarrow> verse_row list \<Rightarrow> verse_row list \<Rightarrow> exn + verse_row list" where
  "executemany outcome verses_batch table =
     (if outcome = Executemany_raises then Inl DatabaseError
      else execute_rows verses_batch table)"

definition commit :: "batch_outcome \<Rightarrow> exn + unit" where
  "commit outcome = (if outcome = Commit_raises then Inl DatabaseError else Inr ())"

definition import_verses_batch ::
  "batch_outcome \<Rightarrow> verse_row list \<Rightarrow> verse_row list \<Rightarrow> (int \<times> int) \<times> verse_row list" where
  "import_verses_batch outcome verses_batch table =
     (let imported = 0; skipped = 0 in
      case executemany outcome verses_batch table of
        Inl e \<Rightarrow> ((imported, int (length verses_batch)), table)
      | Inr pending \<Rightarrow>
          (let imported = int (length verses_batch) in
           case commit outcome of
             Inl e \<Rightarrow> ((imported, int (length verses_batch)), table)
           | Inr done \<Rightarrow> ((imported, skipped), pending)))"

subsection \<open>\<^verbatim>\<open>import_tafsir_verses\<close>\<close>

text \<open>
  The body of the \<^verbatim>\<open>try\<close> of the loop up to \<^verbatim>\<open>verses_batch.append\<close>: \<open>Inr None\<close> is the
  \<^verbatim>\<open>continue\<close> for a blank text, \<open>Inr (Some row)\<close> the tuple to append, \<open>Inl e\<close> an
  exception for the \<^verbatim>\<open>except\<close> clause of the loop.
\<close>

definition verse_tuple ::
  "environment \<Rightarrow> json \<Rightarrow> json \<Rightarrow> pystr \<Rightarrow> json \<Rightarrow> exn + verse_row option" where
  "verse_tuple env meta tid key verse_data =
     (case py_get verse_data (py ''tf'') (JDict []) of Inl e \<Rightarrow> Inl e | Inr tf \<Rightarrow>
     (case py_get tf (py ''t'') (JStr []) of Inl e \<Rightarrow> Inl e | Inr tafsir_text \<Rightarrow>
     (case py_strip_value tafsir_text of Inl e \<Rightarrow> Inl e | Inr stripped \<Rightarrow>
     if stripped = [] then Inr None else
     (case tafsir_text of
        JStr text_value \<Rightarrow>
         (case calculate_data_hash env text_value of Inl e \<Rightarrow> Inl e | Inr hash \<Rightarrow>
         (case py_get verse_data (py ''c'') (JInt 0) of Inl e \<Rightarrow> Inl e | Inr c \<Rightarrow>
         (case py_get verse_data (py ''n'') (JInt 0) of Inl e \<Rightarrow> Inl e | Inr n \<Rightarrow>
         (case py_getitem meta (py ''tn'') of Inl e \<Rightarrow> Inl e | Inr tn \<Rightarrow>
         (case py_get meta (py ''au'') (JStr (py ''Unknown'')) of Inl e \<Rightarrow> Inl e | Inr au \<Rightarrow>
         (case py_getitem meta (py ''lang'') of Inl e \<Rightarrow> Inl e | Inr lang \<Rightarrow>
          Inr (Some \<lparr>verse_key = key, chapter_number = c, verse_number = n,
                     translation_id = tid, translation_name = tn, author_name = au,
                     language_code = lang, text_column = text_value,
                     resource_type = py ''tafsir'', data_hash = hash\<rparr>)))))))
      | _ \<Rightarrow> Inl AttributeError))))"

record loop_state =
  verses_batch :: "verse_row list"
  total_imported :: int
  total_skipped :: int
  translation_rows :: "verse_row list"
  submitted :: "verse_row list list"

text \<open>
  One call of \<^verbatim>\<open>import_verses_batch\<close> from the loop, with the two additions that follow
  it. \<open>submitted\<close> records the batches handed to the store, in order; the outcome of a
  batch is looked up under its position in that record.
\<close>

definition submit_batch :: "environment \<Rightarrow> loop_state \<Rightarrow> loop_state" where
  "submit_batch env st =
     (case import_verses_batch (batch_outcome_of env (length (submitted st)))
             (verses_batch st) (translation_rows st) of
        ((imported, skipped), table) \<Rightarrow>
          st\<lparr>total_imported := total_imported st + imported,
             total_skipped := total_skipped st + skipped,
             translation_rows := table,
             submitted := submitted st @ [verses_batch st]\<rparr>)"

text \<open>
  One iteration of the loop. The progress test \<^verbatim>\<open>total_imported % (batch_size * 5)\<close>
  is inside the \<^verbatim>\<open>try\<close>: when it divides by zero, the \<^verbatim>\<open>except\<close> clause counts one
  more skipped record.
\<close>

definition process_verse ::
  "environment \<Rightarrow> int \<Rightarrow> json \<Rightarrow> json \<Rightarrow> loop_state \<Rightarrow> pystr \<times> json \<Rightarrow> loop_state" where
  "process_verse env batch_size meta tid st item =
     (case verse_tuple env meta tid (fst item) (snd item) of
        Inl e \<Rightarrow> st\<lparr>total_skipped := total_skipped st + 1\<rparr>
      | Inr None \<Rightarrow> st\<lparr>total_skipped := total_skipped st + 1\<rparr>
      | Inr (Some row) \<Rightarrow>
          (let st1 = st\<lparr>verses_batch := verses_batch st @ [row]\<rparr> in
           if int (length (verses_batch st1)) \<ge> batch_size then
             (let st2 = (submit_batch env st1)\<lparr>verses_batch := []\<rparr> in
              case py_mod (total_imported st2) (batch_size * 5) of
                Inl e \<Rightarrow> st2\<lparr>total_skipped := total_skipped st2 + 1\<rparr>
              | Inr remainder \<Rightarrow> st2)
           else st1))"

definition import_tafsir_verses ::
  "environment \<Rightarrow> int \<Rightarrow> json \<Rightarrow> verse_row list \<Rightarrow> exn + loop_state" where
  "import_tafsir_verses env batch_size tafsir_data table =
     (case py_getitem tafsir_data (py ''meta'') of Inl e \<Rightarrow> Inl e | Inr meta \<Rightarrow>
     (case py_getitem tafsir_data (py ''vs'') of Inl e \<Rightarrow> Inl e | Inr verses \<Rightarrow>
     (case py_getitem meta (py ''tid'') of Inl e \<Rightarrow> Inl e | Inr tid \<Rightarrow>
     (case py_len verses of Inl e \<Rightarrow> Inl e | Inr n \<Rightarrow>
     (case py_getitem meta (py ''tn'') of Inl e \<Rightarrow> Inl e | Inr tn \<Rightarrow>
     (case py_items verses of Inl e \<Rightarrow> Inl e | Inr items \<Rightarrow>
     (let st = foldl (process_verse env batch_size meta tid)
                 \<lparr>verses_batch = [], total_imported = 0, total_skipped = 0,
                  translation_rows = table, submitted = []\<rparr> items
      in Inr (if verses_batch st \<noteq> [] then submit_batch env st else st))))))))"

subsection \<open>\<^verbatim>\<open>log_import_result\<close> and \<^verbatim>\<open>import_tafsir_file\<close>\<close>

definition log_import_result ::
  "pystr \<Rightarrow> json \<Rightarrow> int \<Rightarrow> int \<Rightarrow> pystr \<Rightarrow> message option \<Rightarrow> database \<Rightarrow> database" where
  "log_import_result path tid imported skipped outcome msg db =
     db\<lparr>import_log := import_log db @
       [\<lparr>log_file_path = path, log_translation_id = tid, verses_imported = imported,
         verses_skipped = skipped, status = outcome, error_message = msg\<rparr>]\<rparr>"

text \<open>
  The \<^verbatim>\<open>try\<close> block of \<^verbatim>\<open>import_tafsir_file\<close>. An exception leaves the store as the
  last commit left it, so the store comes back in both cases.
\<close>

definition import_tafsir_file_try ::
  "environment \<Rightarrow> int \<Rightarrow> json \<Rightarrow> json \<Rightarrow> source_file \<Rightarrow> database \<Rightarrow> ImportStats
     \<Rightarrow> (exn + unit) \<times> database \<times> ImportStats" where
  "import_tafsir_file_try env batch_size tafsir_data tid file db stats =
     (case import_tafsir_metadata env tafsir_data file db of
        Inl e \<Rightarrow> (Inl e, db, stats)
      | Inr db1 \<Rightarrow>
     (case import_tafsir_verses env batch_size tafsir_data (quran_translations db1) of
        Inl e \<Rightarrow> (Inl e, db1, stats)
      | Inr st \<Rightarrow>
     (let db2 = db1\<lparr>quran_translations := translation_rows st\<rparr>;
          imported = total_imported st; skipped = total_skipped st in
     (case py_getitem tafsir_data (py ''vs'') of
        Inl e \<Rightarrow> (Inl e, db2, stats)
      | Inr verses \<Rightarrow>
     (case py_len verses of
        Inl e \<Rightarrow> (Inl e, db2, stats)
      | Inr n \<Rightarrow>
     (let stats1 = stats\<lparr>total_verses := total_verses stats + n,
                         imported_verses := imported_verses stats + imported,
                         skipped_verses := skipped_verses stats + skipped\<rparr>
      in (Inr (),
          log_import_result (file_path file) tid imported skipped (py ''completed'') None db2,
          stats1)))))))"

definition import_tafsir_file ::
  "environment \<Rightarrow> int \<Rightarrow> source_file \<Rightarrow> bool \<Rightarrow> database \<Rightarrow> ImportStats
     \<Rightarrow> (exn + bool) \<times> database \<times> ImportStats" where
  "import_tafsir_file env batch_size file force_reimport db stats =
     (case validate_tafsir_file (loaded file) of (is_valid, tafsir_data) \<Rightarrow>
     if \<not> is_valid then
       (Inr False,
        log_import_result (file_path file) (JInt 0) 0 0 (py ''failed'')
          (Some (Text (py ''File validation failed''))) db,
        stats)
     else
     (case tafsir_data of
        None \<Rightarrow> (Inl TypeError, db, stats)
      | Some data \<Rightarrow>
     (case py_getitem data (py ''meta'') of
        Inl e \<Rightarrow> (Inl e, db, stats)
      | Inr meta \<Rightarrow>
     (case py_getitem meta (py ''tid'') of
        Inl e \<Rightarrow> (Inl e, db, stats)
      | Inr tid \<Rightarrow>
     if \<not> force_reimport \<and> check_existing_tafsir db tid then
       (Inr True,
        log_import_result (file_path file) tid 0 0 (py ''skipped'')
          (Some (Text (py ''Already imported''))) db,
        stats)
     else
     (case import_tafsir_file_try env batch_size data tid file db stats of
        (Inr done, db1, stats1) \<Rightarrow> (Inr True, db1, stats1)
      | (Inl e, db1, stats1) \<Rightarrow>
          (Inr False,
           log_import_result (file_path file) tid 0 0 (py ''failed'') (Some (Str_of e)) db1,
           stats1\<lparr>errors := errors stats1 + 1\<rparr>))))))"

section \<open>Progress files (both scripts)\<close>

text \<open>
  What a progress file can be when it is opened: absent, present but unreadable,
  readable but not JSON, or holding a progress value. The value is taken to have the
  shape that \<^verbatim>\<open>save_progress\<close> writes; a key may still be absent from it.
\<close>

datatype 'a progress_file = No_file | Unreadable | Invalid_json | Holds 'a

datatype write_outcome = Write_succeeds | Open_raises | Dump_raises

datatype log_line =
    Could_not_load_progress exn
  | Could_not_save_progress exn
  | Url_not_found pystr
  | Http_status int pystr
  | Timeout_for pystr int
  | Error_fetching pystr int
  | Failed_to_fetch pystr int
  | Invalid_verse_reference int int
  | Error_parsing_verse int int
  | Scraping_chapter int pystr
  | Invalid_chapter_number int
  | Skipping_completed_chapter int
  | Skipping_completed_tafsir pystr
  | Error_scraping pystr exn

text \<open>
  The \<^verbatim>\<open>try\<close> block of \<^verbatim>\<open>load_progress\<close>: \<open>Inr None\<close> when \<^verbatim>\<open>os.path.exists\<close> is
  false and control falls through to the default.
\<close>

definition load_progress_try :: "'a progress_file \<Rightarrow> exn + 'a option" where
  "load_progress_try f =
     (case f of
        No_file \<Rightarrow> Inr None
      | Unreadable \<Rightarrow> Inl OSError
      | Invalid_json \<Rightarrow> Inl JSONDecodeError
      | Holds p \<Rightarrow> Inr (Some p))"

text \<open>
  \<^verbatim>\<open>load_progress\<close> with the default of its class: the \<^verbatim>\<open>except Exception\<close> clause logs
  a warning and falls through to the same default.
\<close>

definition load_progress :: "'a \<Rightarrow> 'a progress_file \<Rightarrow> (exn + 'a) \<times> log_line list" where
  "load_progress dflt f =
     (case load_progress_try f of
        Inl e \<Rightarrow> (Inr dflt, [Could_not_load_progress e])
      | Inr None \<Rightarrow> (Inr dflt, [])
      | Inr (Some p) \<Rightarrow> (Inr p, []))"

text \<open>
  The \<^verbatim>\<open>try\<close> block of \<^verbatim>\<open>save_progress\<close>, with the file it leaves behind: opening for
  writing may fail (the file is untouched), or the dump may fail after the file has been
  truncated.
\<close>

definition save_progress_try ::
  "write_outcome \<Rightarrow> 'a \<Rightarrow> 'a progress_file \<Rightarrow> (exn + unit) \<times> 'a progress_file" where
  "save_progress_try outcome progress f =
     (case outcome of
        Write_succeeds \<Rightarrow> (Inr (), Holds progress)
      | Open_raises \<Rightarrow> (Inl OSError, f)
      | Dump_raises \<Rightarrow> (Inl OSError, Invalid_json))"

text \<open>
  \<^verbatim>\<open>save_progress\<close>, the same text in both classes: the \<^verbatim>\<open>except Exception\<close> clause logs
  an error and the method returns.
\<close>

definition save_progress ::
  "write_outcome \<Rightarrow> 'a \<Rightarrow> 'a progress_file
     \<Rightarrow> (exn + unit) \<times> 'a progress_file \<times> log_line list" where
  "save_progress outcome progress f =
     (case save_progress_try outcome progress f of
        (Inl e, f') \<Rightarrow> (Inr (), f', [Could_not_save_progress e])
      | (Inr done, f') \<Rightarrow> (Inr (), f', []))"

subsection \<open>The importer's progress\<close>

record import_progress =
  progress_processed_files :: "pystr list option"
  progress_failed_files :: "pystr list option"
  progress_last_file :: "pystr option"

definition importer_default_progress :: import_progress where
  "importer_default_progress =
     \<lparr>progress_processed_files = Some [], progress_failed_files = Some [],
      progress_last_file = None\<rparr>"

definition importer_load_progress ::
  "import_progress progress_file \<Rightarrow> (exn + import_progress) \<times> log_line list" where
  "importer_load_progress f = load_progress importer_default_progress f"

section \<open>The scraper (scrape_altafsir_com.py)\<close>

record tafsir_info =
  info_id :: int
  info_name :: pystr
  info_url :: pystr
  info_language :: pystr
  info_author :: "pystr option"

record scraper_progress =
  completed_tafasir :: "int list option"
  current_tafsir :: "tafsir_info option"
  current_chapter :: int
  completed_chapters :: "int list option"

definition scraper_default_progress :: scraper_progress where
  "scraper_default_progress =
     \<lparr>completed_tafasir = Some [], current_tafsir = None, current_chapter = 1,
      completed_chapters = None\<rparr>"

definition scraper_load_progress ::
  "scraper_progress progress_file \<Rightarrow> (exn + scraper_progress) \<times> log_line list" where
  "scraper_load_progress f = load_progress scraper_default_progress f"

subsection \<open>What the scraper does not control\<close>

text \<open>
  One attempt to get a URL ends in a response with a status (and a body, unless reading
  the body raises), in a timeout, or in another client error. The remote site gives one
  such result for each URL and attempt number; the site-specific extraction of the
  tafsir text from a page, the outcome of each write of the progress file (numbered from
  0) and the date are given from outside as well.
\<close>

datatype response = Response int "pystr option" | Timeout_error | Client_error

record web =
  http_get :: "pystr \<Rightarrow> nat \<Rightarrow> response"
  extract_text :: "pystr \<Rightarrow> exn + pystr"
  write_outcome_of :: "nat \<Rightarrow> write_outcome"
  today :: pystr

datatype event = Slept_delay | Slept int | Requested pystr | Logged log_line

subsection \<open>\<^verbatim>\<open>fetch_with_retry\<close>\<close>

text \<open>
  The rest of the \<^verbatim>\<open>for attempt in range(max_retries)\<close> loop, from the attempts still to
  make; the events so far are passed along. The backoff of the source is
  \<^verbatim>\<open>2 ** attempt\<close> seconds.
\<close>

fun fetch_attempts ::
  "(nat \<Rightarrow> response) \<Rightarrow> pystr \<Rightarrow> int \<Rightarrow> int list \<Rightarrow> event list
     \<Rightarrow> pystr option \<times> event list" where
  "fetch_attempts get url max_retries [] tr =
     (None, tr @ [Logged (Failed_to_fetch url max_retries)])"
| "fetch_attempts get url max_retries (attempt # rest) tr =
     (let tr1 = tr @ [Slept_delay, Requested url];
          backoff = (if attempt < max_retries - 1 then [Slept (2 ^ nat attempt)] else [])
      in case get (nat attempt) of
           Response status_code body \<Rightarrow>
             if status_code = 200 then
               (case body of
                  Some content \<Rightarrow> (Some content, tr1)
                | None \<Rightarrow>
                    fetch_attempts get url max_retries rest
                      (tr1 @ [Logged (Error_fetching url (attempt + 1))] @ backoff))
             else if status_code = 404 then (None, tr1 @ [Logged (Url_not_found url)])
             else fetch_attempts get url max_retries rest
                    (tr1 @ [Logged (Http_status status_code url)] @ backoff)
         | Timeout_error \<Rightarrow>
             fetch_attempts get url max_retries rest
               (tr1 @ [Logged (Timeout_for url (attempt + 1))] @ backoff)
         | Client_error \<Rightarrow>
             fetch_attempts get url max_retries rest
               (tr1 @ [Logged (Error_fetching url (attempt + 1))] @ backoff))"

definition fetch_with_retry ::
  "(nat \<Rightarrow> response) \<Rightarrow> pystr \<Rightarrow> int \<Rightarrow> pystr option \<times> event list" where
  "fetch_with_retry get url max_retries =
     fetch_attempts get url max_retries [0..max_retries - 1] []"

subsection \<open>\<^verbatim>\<open>scrape_verse_tafsir\<close> and \<^verbatim>\<open>scrape_chapter\<close>\<close>

text \<open>\<^verbatim>\<open>str(i)\<close> for an integer, as an f-string prints it.\<close>

fun decimal :: "nat \<Rightarrow> pystr" where
  "decimal n = (if n < 10 then [48 + n] else decimal (n div 10) @ [48 + n mod 10])"

declare decimal.simps [simp del]

definition py_str_int :: "int \<Rightarrow> pystr" where
  "py_str_int i = (if i < 0 then 45 # decimal (nat (- i)) else decimal (nat i))"

definition verse_key_of :: "int \<Rightarrow> int \<Rightarrow> pystr" where
  "verse_key_of chapter verse = py_str_int chapter @ py '':'' @ py_str_int verse"

text \<open>\<^verbatim>\<open>asdict(VerseData(...))\<close>.\<close>

definition verse_data_dict :: "tafsir_info \<Rightarrow> int \<Rightarrow> int \<Rightarrow> pystr \<Rightarrow> json" where
  "verse_data_dict info chapter verse tafsir_text =
     JDict [(py ''v'', JStr (verse_key_of chapter verse)),
            (py ''c'', JInt chapter),
            (py ''n'', JInt verse),
            (py ''tf'', JDict [(py ''t'', JStr tafsir_text), (py ''r'', JStr []),
                              (py ''id'', JInt (info_id info))]),
            (py ''tr'', JList [])]"

definition scrape_verse_tafsir ::
  "web \<Rightarrow> tafsir_info \<Rightarrow> int \<Rightarrow> int \<Rightarrow> json option \<times> event list" where
  "scrape_verse_tafsir w info chapter verse =
     (if \<not> scraper_validate_verse_reference chapter verse then
        (None, [Logged (Invalid_verse_reference chapter verse)])
      else
        (let verse_url = info_url info @ py ''/chapter/'' @ py_str_int chapter
                           @ py ''/verse/'' @ py_str_int verse
         in case fetch_with_retry (http_get w verse_url) verse_url 3 of
              (None, tr) \<Rightarrow> (None, tr)
            | (Some content, tr) \<Rightarrow>
                if content = [] then (None, tr)
                else (case extract_text w content of
                        Inl e \<Rightarrow> (None, tr @ [Logged (Error_parsing_verse chapter verse)])
                      | Inr tafsir_text \<Rightarrow>
                          if tafsir_text \<noteq> [] then
                            (Some (verse_data_dict info chapter verse tafsir_text), tr)
                          else (None, tr))))"

text \<open>\<^verbatim>\<open>d[key] = value\<close> on the items of a dict: a key already present keeps its place.\<close>

fun dict_set :: "(pystr \<times> json) list \<Rightarrow> pystr \<Rightarrow> json \<Rightarrow> (pystr \<times> json) list" where
  "dict_set [] key v = [(key, v)]"
| "dict_set ((k, v') # items) key v =
     (if k = key then (k, v) # items else (k, v') # dict_set items key v)"

text \<open>
  The verse tasks of one chapter share nothing but the fetcher, and the result of a
  task depends only on its URL, so the tasks are run one after the other here; their
  results are collected in verse order, as \<^verbatim>\<open>asyncio.gather\<close> returns them.
\<close>

definition scrape_chapter ::
  "web \<Rightarrow> tafsir_info \<Rightarrow> int \<Rightarrow> (pystr \<times> json) list \<times> event list" where
  "scrape_chapter w info chapter =
     (case map_of QURAN_CHAPTERS chapter of
        None \<Rightarrow>
          ([], [Logged (Scraping_chapter chapter (info_name info)),
                Logged (Invalid_chapter_number chapter)])
      | Some (chapter_name, verse_count) \<Rightarrow>
          (let results = map (\<lambda>verse. (verse, scrape_verse_tafsir w info chapter verse))
                           [1..verse_count];
               verses_data =
                 foldl (\<lambda>d (verse, result).
                          case fst result of
                            None \<Rightarrow> d
                          | Some verse_data \<Rightarrow> dict_set d (verse_key_of chapter verse) verse_data)
                       [] results
           in (verses_data,
               Logged (Scraping_chapter chapter (info_name info))
                 # concat (map (\<lambda>(verse, result). snd result) results))))"

subsection \<open>\<^verbatim>\<open>scrape_complete_tafsir\<close>\<close>

text \<open>The scraper object: its progress, the progress file, and what it did so far.\<close>

record scraper =
  progress_data :: scraper_progress
  progress_file :: "scraper_progress progress_file"
  saves :: nat
  events :: "event list"

definition scraper_save_progress :: "web \<Rightarrow> scraper \<Rightarrow> scraper" where
  "scraper_save_progress w s =
     (case save_progress (write_outcome_of w (saves s)) (progress_data s) (progress_file s) of
        (returned, f, logged) \<Rightarrow>
          s\<lparr>progress_file := f, saves := saves s + 1,
            events := events s @ map Logged logged\<rparr>)"

text \<open>\<^verbatim>\<open>progress_data.get("completed_chapters", [])\<close> and its sibling.\<close>

definition get_list :: "int list option \<Rightarrow> int list" where
  "get_list entry = (case entry of None \<Rightarrow> [] | Some xs \<Rightarrow> xs)"

text \<open>One iteration of the chapter loop, on the scraper and the verses collected so far.\<close>

definition scrape_chapter_step ::
  "web \<Rightarrow> tafsir_info \<Rightarrow> scraper \<times> (pystr \<times> json) list \<Rightarrow> int
     \<Rightarrow> scraper \<times> (pystr \<times> json) list" where
  "scrape_chapter_step w info state chapter =
     (case state of (s, all_verses) \<Rightarrow>
      if chapter \<in> set (get_list (completed_chapters (progress_data s))) then
        (s\<lparr>events := events s @ [Logged (Skipping_completed_chapter chapter)]\<rparr>, all_verses)
      else
        (let s1 = scraper_save_progress w
                    (s\<lparr>progress_data := (progress_data s)\<lparr>current_chapter := chapter\<rparr>\<rparr>)
         in case scrape_chapter w info chapter of
              (chapter_verses, tr) \<Rightarrow>
                (let all_verses1 = foldl (\<lambda>d (k, v). dict_set d k v) all_verses chapter_verses;
                     p1 = progress_data s1;
                     p2 = (if completed_chapters p1 = None
                           then p1\<lparr>completed_chapters := Some []\<rparr> else p1);
                     p3 = p2\<lparr>completed_chapters :=
                               Some (get_list (completed_chapters p2) @ [chapter])\<rparr>;
                     s2 = scraper_save_progress w
                            (s1\<lparr>progress_data := p3, events := events s1 @ tr\<rparr>)
                 in (s2, all_verses1))))"

text \<open>The \<^verbatim>\<open>chs\<close> part of the document: \<^verbatim>\<open>QURAN_CHAPTERS[ch_num]\<close> for 1 to 114.\<close>

fun chapters_info :: "int list \<Rightarrow> exn + (pystr \<times> json) list" where
  "chapters_info [] = Inr []"
| "chapters_info (ch_num # rest) =
     (case map_of QURAN_CHAPTERS ch_num of
        None \<Rightarrow> Inl KeyError
      | Some (ch_name, verse_count) \<Rightarrow>
          (case chapters_info rest of
             Inl e \<Rightarrow> Inl e
           | Inr chapters \<Rightarrow>
               Inr ((py_str_int ch_num,
                     JDict [(py ''id'', JInt ch_num), (py ''n'', JStr ch_name),
                            (py ''vc'', JInt verse_count)]) # chapters)))"

text \<open>\<^verbatim>\<open>asdict(meta)\<close> after the coverage has been filled in.\<close>

definition meta_dict :: "web \<Rightarrow> tafsir_info \<Rightarrow> int \<Rightarrow> json" where
  "meta_dict w info total_verses_count =
     JDict [(py ''tid'', JInt (info_id info)),
            (py ''tn'', JStr (info_name info)),
            (py ''au'', JStr (case info_author info of None \<Rightarrow> py ''Unknown'' | Some a \<Rightarrow> a)),
            (py ''lang'', JStr (info_language info)),
            (py ''trid'', JNull),
            (py ''arabic'', JBool (info_language info = py ''arabic'')),
            (py ''opt'', JStr (py ''compressed_25mb'')),
            (py ''v'', JStr (py ''25MB-OPT-1.0'')),
            (py ''date'', JStr (today w)),
            (py ''user'', JStr (py ''Siamal123'')),
            (py ''target'', JInt 6236),
            (py ''coverage'',
               JDict [(py ''verses'', JInt total_verses_count), (py ''trans'', JInt 0),
                      (py ''size_mb'', JFloat 0 0), (py ''time_min'', JFloat 0 0),
                      (py ''opt'', JBool True)])]"

definition scrape_complete_tafsir ::
  "web \<Rightarrow> tafsir_info \<Rightarrow> int \<Rightarrow> int \<Rightarrow> scraper \<Rightarrow> (exn + json) \<times> scraper" where
  "scrape_complete_tafsir w info start_chapter end_chapter s =
     (case chapters_info [1..114] of
        Inl e \<Rightarrow> (Inl e, s)
      | Inr chapters \<Rightarrow>
          (case foldl (scrape_chapter_step w info) (s, []) [start_chapter..end_chapter] of
             (s1, all_verses) \<Rightarrow>
               (Inr (JDict [(py ''meta'', meta_dict w info (int (length all_verses))),
                            (py ''chs'', JDict chapters),
                            (py ''vs'', JDict all_verses)]),
                s1)))"

subsection \<open>\<^verbatim>\<open>run_scraper\<close>, from the list of discovered tafsir books on\<close>

text \<open>
  One iteration of the loop over the tafsir books. The documents written by
  \<^verbatim>\<open>save_tafsir_data\<close> are collected in a list.
\<close>

definition run_scraper_step ::
  "web \<Rightarrow> scraper \<times> json list \<Rightarrow> tafsir_info \<Rightarrow> scraper \<times> json list" where
  "run_scraper_step w state info =
     (case state of (s, saved) \<Rightarrow>
      if info_id info \<in> set (get_list (completed_tafasir (progress_data s))) then
        (s\<lparr>events := events s @ [Logged (Skipping_completed_tafsir (info_name info))]\<rparr>, saved)
      else
        (let s1 = scraper_save_progress w
                    (s\<lparr>progress_data := (progress_data s)\<lparr>current_tafsir := Some info\<rparr>\<rparr>)
         in case scrape_complete_tafsir w info 1 114 s1 of
              (Inl e, s2) \<Rightarrow>
                (s2\<lparr>events := events s2 @ [Logged (Error_scraping (info_name info) e)]\<rparr>, saved)
            | (Inr tafsir_data, s2) \<Rightarrow>
                (let p1 = progress_data s2;
                     p2 = (if completed_tafasir p1 = None
                           then p1\<lparr>completed_tafasir := Some []\<rparr> else p1);
                     p3 = p2\<lparr>completed_tafasir :=
                               Some (get_list (completed_tafasir p2) @ [info_id info]),
                             completed_chapters := Some []\<rparr>
                 in (scraper_save_progress w (s2\<lparr>progress_data := p3\<rparr>),
                     saved @ [tafsir_data]))))"

definition run_scraper ::
  "web \<Rightarrow> tafsir_info list \<Rightarrow> int list option \<Rightarrow> pystr list option \<Rightarrow> scraper
     \<Rightarrow> scraper \<times> json list" where
  "run_scraper w discovered tafsir_ids languages s =
     (if discovered = [] then (s, [])
      else
        (let by_id = (case tafsir_ids of
                        None \<Rightarrow> discovered
                      | Some ids \<Rightarrow>
                          if ids = [] then discovered
                          else filter (\<lambda>t. info_id t \<in> set ids) discovered);
             available = (case languages of
                            None \<Rightarrow> by_id
                          | Some langs \<Rightarrow>
                              if langs = [] then by_id
                              else filter (\<lambda>t. info_language t \<in> set langs) by_id)
         in foldl (run_scraper_step w) (s, []) available))"

section \<open>Observations\<close>

text \<open>The document that the crawl hands to the import: \<^verbatim>\<open>meta\<close>, \<^verbatim>\<open>chs\<close>, \<^verbatim>\<open>vs\<close>.\<close>

definition edition_document :: "json \<Rightarrow> json \<Rightarrow> (pystr \<times> json) list \<Rightarrow> json" where
  "edition_document meta chs items =
     JDict [(py ''meta'', meta), (py ''chs'', chs), (py ''vs'', JDict items)]"

text \<open>The pair that \<^verbatim>\<open>import_tafsir_verses\<close> returns.\<close>

definition returned_counts :: "exn + loop_state \<Rightarrow> exn + int \<times> int" where
  "returned_counts result =
     (case result of
        Inl e \<Rightarrow> Inl e
      | Inr st \<Rightarrow> Inr (total_imported st, total_skipped st))"

text \<open>The table that \<^verbatim>\<open>import_tafsir_verses\<close> leaves behind.\<close>

definition stored_rows :: "exn + loop_state \<Rightarrow> exn + verse_row list" where
  "stored_rows result =
     (case result of
        Inl e \<Rightarrow> Inl e
      | Inr st \<Rightarrow> Inr (translation_rows st))"

text \<open>The rows of a table that belong to one verse key.\<close>

definition rows_for :: "pystr \<Rightarrow> verse_row list \<Rightarrow> verse_row list" where
  "rows_for key table = filter (\<lambda>r. verse_key r = key) table"

text \<open>The key occurs neither in the open batch nor in a submitted one, and the rows
  stored under it are those of the table \<open>t0\<close>.\<close>

definition untouched :: "pystr \<Rightarrow> verse_row list \<Rightarrow> loop_state \<Rightarrow> bool" where
  "untouched key t0 st \<longleftrightarrow>
     key \<notin> verse_key ` set (verses_batch st)
     \<and> list_all (\<lambda>batch. key \<notin> verse_key ` set batch) (submitted st)
     \<and> rows_for key (translation_rows st) = rows_for key t0"

text \<open>A row that the store can take: every value can be bound and no required column is
  \<^verbatim>\<open>None\<close>.\<close>

definition insertable :: "verse_row \<Rightarrow> bool" where
  "insertable r \<longleftrightarrow> bind_row r = Inr () \<and> \<not> violates_not_null r"

text \<open>The verse keys of the table that \<^verbatim>\<open>import_tafsir_verses\<close> leaves behind.\<close>

definition stored_keys :: "exn + loop_state \<Rightarrow> exn + pystr list" where
  "stored_keys result =
     (case result of
        Inl e \<Rightarrow> Inl e
      | Inr st \<Rightarrow> Inr (map verse_key (translation_rows st)))"

text \<open>
  A verse entry whose tafsir text is present, is a string, and is empty or consists of
  white space only.
\<close>

definition blank_entry :: "json \<Rightarrow> bool" where
  "blank_entry verse_data =
     (case verse_data of
        JDict entries \<Rightarrow>
          (case map_of entries (py ''tf'') of
             Some (JDict tf) \<Rightarrow>
               (case map_of tf (py ''t'') of
                  Some (JStr s) \<Rightarrow> list_all py_isspace s
                | _ \<Rightarrow> False)
           | _ \<Rightarrow> False)
      | _ \<Rightarrow> False)"

text \<open>The number of GET requests in a record of events.\<close>

fun is_request :: "event \<Rightarrow> bool" where
  "is_request (Requested url) = True"
| "is_request _ = False"

definition requests :: "event list \<Rightarrow> nat" where
  "requests tr = length (filter is_request tr)"

text \<open>
  An attempt that fails without ending the retry loop: any outcome except a readable
  200 response and a 404 response.
\<close>

fun transient :: "response \<Rightarrow> bool" where
  "transient (Response status_code body) =
     (if status_code = 200 then body = None else status_code \<noteq> 404)"
| "transient Timeout_error = True"
| "transient Client_error = True"

text \<open>The chapters for which \<^verbatim>\<open>scrape_chapter\<close> was entered, from its first log line.\<close>

fun scraped_chapter :: "event \<Rightarrow> int option" where
  "scraped_chapter (Logged (Scraping_chapter chapter tafsir_name)) = Some chapter"
| "scraped_chapter _ = None"

definition chapters_scraped :: "event list \<Rightarrow> int list" where
  "chapters_scraped tr = List.map_filter scraped_chapter tr"

section \<open>Sample inputs\<close>

text \<open>
  An environment in which every batch commits. The digest and the formatter are fixed
  arbitrarily; no statement below depends on them.
\<close>

definition all_commit :: environment where
  "all_commit =
     \<lparr>md5_hexdigest = (\<lambda>bytes. py ''d41d8cd98f00b204e9800998ecf8427e''),
      format_value = (\<lambda>v. []),
      batch_outcome_of = (\<lambda>i. Batch_commits),
      metadata_insert_raises = False\<rparr>"

text \<open>The same with a store whose first commit of a batch raises.\<close>

definition first_commit_raises :: environment where
  "first_commit_raises =
     all_commit\<lparr>batch_outcome_of := (\<lambda>i. if i = 0 then Commit_raises else Batch_commits)\<rparr>"

text \<open>The same with a store whose first batch insert raises.\<close>

definition first_insert_raises :: environment where
  "first_insert_raises =
     all_commit\<lparr>batch_outcome_of :=
       (\<lambda>i. if i = 0 then Executemany_raises else Batch_commits)\<rparr>"

text \<open>The verse entry that the test file of test_system.py has for a verse.\<close>

definition test_verse :: "pystr \<Rightarrow> int \<Rightarrow> int \<Rightarrow> pystr \<Rightarrow> pystr \<times> json" where
  "test_verse key chapter verse tafsir =
     (key, JDict [(py ''v'', JStr key), (py ''c'', JInt chapter), (py ''n'', JInt verse),
                  (py ''tf'', JDict [(py ''t'', JStr tafsir), (py ''r'', JStr []),
                                    (py ''id'', JInt 9001)]),
                  (py ''tr'', JList [])])"

definition test_meta :: json where
  "test_meta =
     JDict [(py ''tid'', JInt 9001), (py ''tn'', JStr (py ''Test Tafsir'')),
            (py ''au'', JStr (py ''Test Author'')), (py ''lang'', JStr (py ''english'')),
            (py ''trid'', JNull), (py ''arabic'', JBool False),
            (py ''opt'', JStr (py ''compressed_25mb'')), (py ''v'', JStr (py ''25MB-OPT-1.0'')),
            (py ''date'', JStr (py ''2024-01-15'')), (py ''user'', JStr (py ''TestUser'')),
            (py ''target'', JInt 5),
            (py ''coverage'',
               JDict [(py ''verses'', JInt 5), (py ''trans'', JInt 0),
                      (py ''size_mb'', JFloat 1 (- 1)), (py ''time_min'', JFloat 1 (- 1)),
                      (py ''opt'', JBool True)])]"

definition test_chs :: json where
  "test_chs =
     JDict [(py ''1'', JDict [(py ''id'', JInt 1), (py ''n'', JStr (py ''Al-Fatihah'')),
                             (py ''vc'', JInt 7)])]"

text \<open>\<^verbatim>\<open>create_test_tafsir_file\<close> of test_system.py: three verses of chapter 1.\<close>

definition test_verses :: "(pystr \<times> json) list" where
  "test_verses =
     [test_verse (py ''1:1'') 1 1 (py ''In the name of Allah, the most merciful.''),
      test_verse (py ''1:2'') 1 2 (py ''All praise is due to Allah, Lord of the worlds.''),
      test_verse (py ''1:3'') 1 3 (py ''The most merciful, the most compassionate.'')]"

definition test_file :: source_file where
  "test_file =
     \<lparr>file_path = py ''test_tafsir.json'',
      loaded = Inr (edition_document test_meta test_chs test_verses),
      raw_bytes = Inr []\<rparr>"

text \<open>The row that the importer builds for such an entry of the test file.\<close>

definition test_row :: "pystr \<Rightarrow> int \<Rightarrow> int \<Rightarrow> pystr \<Rightarrow> verse_row" where
  "test_row key chapter verse tafsir =
     \<lparr>verse_key = key, chapter_number = JInt chapter, verse_number = JInt verse,
      translation_id = JInt 9001, translation_name = JStr (py ''Test Tafsir''),
      author_name = JStr (py ''Test Author''), language_code = JStr (py ''english''),
      text_column = tafsir, resource_type = py ''tafsir'',
      data_hash = py ''d41d8cd98f00b204e9800998ecf8427e''\<rparr>"

definition empty_database :: database where
  "empty_database = \<lparr>quran_translations = [], tafsir_metadata = [], import_log = []\<rparr>"

definition fresh_stats :: ImportStats where
  "fresh_stats =
     \<lparr>total_files = 0, processed_files = 0, total_verses = 0, imported_verses = 0,
      skipped_verses = 0, errors = 0\<rparr>"

text \<open>The store after the test file has been imported once into an empty store.\<close>

definition after_first_import :: database where
  "after_first_import =
     fst (snd (import_tafsir_file all_commit 10 test_file False empty_database fresh_stats))"

text \<open>The store after the same file has been imported a second time, not forced.\<close>

definition after_second_import :: database where
  "after_second_import =
     fst (snd (import_tafsir_file all_commit 10 test_file False after_first_import fresh_stats))"

text \<open>Ten verses of chapter 2 under their own keys, and one more under a malformed key.\<close>

definition ten_valid_one_malformed :: "(pystr \<times> json) list" where
  "ten_valid_one_malformed =
     [test_verse (py ''2:1'') 2 1 (py ''a''), test_verse (py ''2:2'') 2 2 (py ''b''),
      test_verse (py ''2:3'') 2 3 (py ''c''), test_verse (py ''2:4'') 2 4 (py ''d''),
      test_verse (py ''2:5'') 2 5 (py ''e''), test_verse (py ''not-a-verse'') 2 6 (py ''f''),
      test_verse (py ''2:6'') 2 6 (py ''g''), test_verse (py ''2:7'') 2 7 (py ''h''),
      test_verse (py ''2:8'') 2 8 (py ''i''), test_verse (py ''2:9'') 2 9 (py ''j''),
      test_verse (py ''2:10'') 2 10 (py ''k'')]"

text \<open>A verse whose tafsir text is white space only, followed by a verse with a text.\<close>

definition one_blank_one_full :: "(pystr \<times> json) list" where
  "one_blank_one_full =
     [test_verse (py ''1:1'') 1 1 (py ''   ''), test_verse (py ''1:2'') 1 2 (py ''text'')]"

text \<open>Two verses with a text, the second under a key that is one surrogate code point
  (the JSON string \<^verbatim>\<open>"\ud800"\<close>).\<close>

definition surrogate_key_verses :: "(pystr \<times> json) list" where
  "surrogate_key_verses =
     [test_verse (py ''2:1'') 2 1 (py ''a''), test_verse [0xD800] 2 2 (py ''b'')]"

text \<open>One verse entry filed under chapter 115, which has no verse.\<close>

definition out_of_range_verse :: "pystr \<times> json" where
  "out_of_range_verse = test_verse (py ''115:1'') 115 1 (py ''text'')"

text \<open>Two tafsir books, and the progress left by a crawl of the first that was
  interrupted after chapters 1 and 2.\<close>

definition first_book :: tafsir_info where
  "first_book =
     \<lparr>info_id = 5000, info_name = py ''First'', info_url = py ''https://www.altafsir.com/a'',
      info_language = py ''arabic'', info_author = Some (py ''Unknown'')\<rparr>"

definition second_book :: tafsir_info where
  "second_book =
     \<lparr>info_id = 5001, info_name = py ''Second'', info_url = py ''https://www.altafsir.com/b'',
      info_language = py ''arabic'', info_author = Some (py ''Unknown'')\<rparr>"

definition interrupted_progress :: scraper_progress where
  "interrupted_progress =
     \<lparr>completed_tafasir = Some [], current_tafsir = Some first_book, current_chapter = 3,
      completed_chapters = Some [1, 2]\<rparr>"

definition restarted_scraper :: scraper where
  "restarted_scraper =
     \<lparr>progress_data = interrupted_progress, progress_file = Holds interrupted_progress,
      saves = 0, events = []\<rparr>"

text \<open>A site where every page is missing, and one where every request fails with 500.\<close>

definition always_404 :: "nat \<Rightarrow> response" where
  "always_404 attempt = Response 404 None"

definition always_500 :: "nat \<Rightarrow> response" where
  "always_500 attempt = Response 500 None"

definition missing_site :: web where
  "missing_site =
     \<lparr>http_get = (\<lambda>url. always_404), extract_text = (\<lambda>page. Inr []),
      write_outcome_of = (\<lambda>i. Write_succeeds), today = py ''2024-01-15''\<rparr>"

section \<open>Literals\<close>

lemma py_eq_iff [simp]: "py a = py b \<longleftrightarrow> a = b"
  unfolding py_def by (simp add: inj_map_eq_map inj_on_def)

lemma py_Nil [simp]: "py [] = []"
  by (simp add: py_def)

lemma py_eq_Nil [simp]: "py a = [] \<longleftrightarrow> a = []" "[] = py a \<longleftrightarrow> a = []"
  by (auto simp: py_def)

lemma py_append: "py a @ py b = py (a @ b)"
  by (simp add: py_def)

lemma length_py [simp]: "length (py a) = length a"
  by (simp add: py_def)

section \<open>Properties of the validators\<close>

lemma VERSE_COUNTS_keys: "map fst VERSE_COUNTS = [1..114]"
  unfolding VERSE_COUNTS_def by (simp add: upto_rec1)

lemma QURAN_CHAPTERS_counts:
  "map (\<lambda>(c, e). (c, snd e)) QURAN_CHAPTERS = VERSE_COUNTS"
  unfolding QURAN_CHAPTERS_def VERSE_COUNTS_def by simp

lemma QURAN_CHAPTERS_lookup:
  "map_of QURAN_CHAPTERS chapter = Some e \<Longrightarrow> map_of VERSE_COUNTS chapter = Some (snd e)"
  unfolding QURAN_CHAPTERS_counts [symmetric] by (simp add: map_of_map)

lemma QURAN_CHAPTERS_lookup_None:
  "map_of QURAN_CHAPTERS chapter = None \<Longrightarrow> map_of VERSE_COUNTS chapter = None"
  unfolding QURAN_CHAPTERS_counts [symmetric] by (simp add: map_of_map)

lemma VERSE_COUNTS_dom: "dom (map_of VERSE_COUNTS) = {1..114}"
  by (simp add: dom_map_of_conv_image_fst VERSE_COUNTS_keys flip: set_map)

lemma VERSE_COUNTS_positive: "map_of VERSE_COUNTS chapter = Some n \<Longrightarrow> 1 \<le> n"
proof -
  assume a: "map_of VERSE_COUNTS chapter = Some n"
  have "list_all (\<lambda>(c, n). 1 \<le> n) VERSE_COUNTS"
    unfolding VERSE_COUNTS_def by simp
  moreover from a have "(chapter, n) \<in> set VERSE_COUNTS"
    by (rule map_of_SomeD)
  ultimately show ?thesis
    by (auto simp: list_all_iff)
qed

lemma validators_agree:
  "scraper_validate_verse_reference chapter verse = validate_verse_reference chapter verse"
  unfolding scraper_validate_verse_reference_def validate_verse_reference_def
  by (auto split: option.splits dest: QURAN_CHAPTERS_lookup QURAN_CHAPTERS_lookup_None)

section \<open>The verse reference validator is exact\<close>

text \<open>
  C6. For every pair of integers, \<^verbatim>\<open>validate_verse_reference(chapter, verse)\<close> is true
  exactly when the chapter is between 1 and 114 and the verse is between 1 and the count
  that the table gives for the chapter. This holds for the function of config_utils.py
  over \<open>VERSE_COUNTS\<close> and for the method of the scraper over \<open>QURAN_CHAPTERS\<close>. Each
  table has exactly the keys 1 to 114, so the lookup never fails inside the range. The
  five values of the specification come out as stated. Being HOL functions without any
  state, both validators are pure and total.
\<close>

theorem validate_verse_reference_exact:
  "(validate_verse_reference chapter verse =
      (1 \<le> chapter \<and> chapter \<le> 114 \<and>
       (\<exists>n. map_of VERSE_COUNTS chapter = Some n \<and> 1 \<le> verse \<and> verse \<le> n)))
   \<and> (scraper_validate_verse_reference chapter verse =
      (1 \<le> chapter \<and> chapter \<le> 114 \<and>
       (\<exists>e. map_of QURAN_CHAPTERS chapter = Some e \<and> 1 \<le> verse \<and> verse \<le> snd e)))
   \<and> map fst VERSE_COUNTS = [1..114] \<and> map fst QURAN_CHAPTERS = [1..114]
   \<and> validate_verse_reference 1 7 \<and> \<not> validate_verse_reference 1 8
   \<and> validate_verse_reference 114 6 \<and> \<not> validate_verse_reference 115 1
   \<and> \<not> validate_verse_reference 0 1"
proof -
  have a: "validate_verse_reference chapter verse =
      (1 \<le> chapter \<and> chapter \<le> 114 \<and>
       (\<exists>n. map_of VERSE_COUNTS chapter = Some n \<and> 1 \<le> verse \<and> verse \<le> n))"
    unfolding validate_verse_reference_def by (auto split: option.splits)
  have b: "scraper_validate_verse_reference chapter verse =
      (1 \<le> chapter \<and> chapter \<le> 114 \<and>
       (\<exists>e. map_of QURAN_CHAPTERS chapter = Some e \<and> 1 \<le> verse \<and> verse \<le> snd e))"
    unfolding scraper_validate_verse_reference_def by (auto split: option.splits)
  have c: "map fst QURAN_CHAPTERS = [1..114]"
    using VERSE_COUNTS_keys unfolding QURAN_CHAPTERS_counts [symmetric]
    by (simp add: case_prod_beta comp_def)
  have d: "validate_verse_reference 1 7" "\<not> validate_verse_reference 1 8"
    "validate_verse_reference 114 6" "\<not> validate_verse_reference 115 1"
    "\<not> validate_verse_reference 0 1"
    unfolding validate_verse_reference_def VERSE_COUNTS_def by simp_all
  show ?thesis using a b c d VERSE_COUNTS_keys by blast
qed

theorem validate_verse_reference_exact_witness:
  "validate_verse_reference 2 286 \<and> \<not> scraper_validate_verse_reference 2 287"
  using validate_verse_reference_exact [of 2 286] validate_verse_reference_exact [of 2 287]
  by (simp add: VERSE_COUNTS_def QURAN_CHAPTERS_def)

section \<open>Evaluating the importer on the test file\<close>

lemma validate_test: "validate_tafsir_file (loaded test_file) = (True, Some (edition_document test_meta test_chs test_verses))"
  by (simp add: validate_tafsir_file_def validate_tafsir_file_try_def test_file_def edition_document_def test_meta_def)

lemma utf8_encode_ascii: "list_all (\<lambda>c. c < 128) s \<Longrightarrow> utf8_encode s = Inr s"
  by (induction s) (simp_all add: utf8_char_def)

lemma utf8_encode_py: "list_all (\<lambda>c. of_char c < (128::nat)) s \<Longrightarrow> utf8_encode (py s) = Inr (py s)"
  by (rule utf8_encode_ascii) (simp add: py_def list_all_iff)

lemma py_strip_nonblank: "s \<noteq> [] \<Longrightarrow> \<not> py_isspace (hd s) \<Longrightarrow> py_strip s \<noteq> []"
  by (cases s) (auto simp: py_strip_def)

lemma py_strip_py: "s \<noteq> [] \<Longrightarrow> \<not> py_isspace (of_char (hd s)) \<Longrightarrow> py_strip (py s) \<noteq> []"
  by (rule py_strip_nonblank) (simp_all add: py_def hd_map)

lemma test_verse_tuple:
  assumes "tafsir \<noteq> []" "\<not> py_isspace (of_char (hd tafsir))" "list_all (\<lambda>c. of_char c < (128::nat)) tafsir"
  shows "verse_tuple env test_meta (JInt 9001) (fst (test_verse key c n (py tafsir))) (snd (test_verse key c n (py tafsir))) =
     Inr (Some ((test_row key c n (py tafsir))\<lparr>data_hash := md5_hexdigest env (py tafsir)\<rparr>))"
  using py_strip_py [OF assms(1,2)] utf8_encode_py [OF assms(3)]
  by (simp add: verse_tuple_def test_verse_def test_meta_def calculate_data_hash_def test_row_def)

lemma execute_rows_insertable:
  "list_all insertable rows \<Longrightarrow>
     execute_rows rows table = Inr (foldl (\<lambda>t r. insert_or_replace r t) table rows)"
  by (induction rows arbitrary: table) (simp_all add: insertable_def)

lemma execute_rows_refused:
  "\<not> list_all insertable rows \<Longrightarrow> \<exists>e. execute_rows rows table = Inl e"
proof (induction rows arbitrary: table)
  case Nil
  then show ?case by simp
next
  case (Cons r rows)
  show ?case
  proof (cases "insertable r")
    case True
    with Cons.prems have "\<not> list_all insertable rows"
      by simp
    then obtain e where "execute_rows rows (insert_or_replace r table) = Inl e"
      using Cons.IH by blast
    with True show ?thesis
      by (simp add: insertable_def)
  next
    case False
    then show ?thesis
      by (cases "bind_row r") (auto simp: insertable_def)
  qed
qed

lemma import_verses_batch_commits:
  "list_all insertable b \<Longrightarrow>
     import_verses_batch Batch_commits b t =
       ((int (length b), 0), foldl (\<lambda>t r. insert_or_replace r t) t b)"
  by (simp add: import_verses_batch_def executemany_def commit_def execute_rows_insertable)

lemma import_verses_batch_executemany_raises:
  "import_verses_batch Executemany_raises b t = ((0, int (length b)), t)"
  by (simp add: import_verses_batch_def executemany_def commit_def)

lemma import_verses_batch_commit_raises:
  "list_all insertable b \<Longrightarrow>
     import_verses_batch Commit_raises b t = ((int (length b), int (length b)), t)"
  by (simp add: import_verses_batch_def executemany_def commit_def execute_rows_insertable)

lemma import_verses_batch_refused:
  assumes "\<not> list_all insertable b"
  shows "import_verses_batch outcome b t = ((0, int (length b)), t)"
proof -
  from assms obtain e where "execute_rows b t = Inl e"
    using execute_rows_refused by blast
  then show ?thesis
    by (simp add: import_verses_batch_def executemany_def)
qed

lemma test_row_key [simp]: "verse_key (test_row key c n t) = key"
  "translation_id (test_row key c n t) = JInt 9001"
  by (simp_all add: test_row_def)

lemma bind_parameter_py:
  "list_all (\<lambda>c. of_char c < (128::nat)) s \<Longrightarrow> bind_parameter (JStr (py s)) = Inr ()"
  by (simp add: utf8_encode_py)

lemma test_row_insertable:
  assumes "list_all (\<lambda>c. of_char c < (128::nat)) key"
    and "list_all (\<lambda>c. of_char c < (128::nat)) tafsir"
    and "- (2 ^ 63) \<le> c" "c < 2 ^ 63" "- (2 ^ 63) \<le> n" "n < 2 ^ 63"
  shows "insertable (test_row (py key) c n (py tafsir))"
  using assms
  by (simp add: insertable_def bind_row_def violates_not_null_def test_row_def
        utf8_encode_py)

lemma process_verse_rejected:
  "verse_tuple env meta tid (fst item) (snd item) = Inl e \<or> verse_tuple env meta tid (fst item) (snd item) = Inr None \<Longrightarrow>
   process_verse env bs meta tid st item = st\<lparr>total_skipped := total_skipped st + 1\<rparr>"
  by (auto simp: process_verse_def)

lemma process_verse_appends:
  "verse_tuple env meta tid (fst item) (snd item) = Inr (Some row) \<Longrightarrow> int (length (verses_batch st)) + 1 < bs \<Longrightarrow>
   process_verse env bs meta tid st item = st\<lparr>verses_batch := verses_batch st @ [row]\<rparr>"
  by (simp add: process_verse_def Let_def)

lemma process_verse_submits:
  "verse_tuple env meta tid (fst item) (snd item) = Inr (Some row) \<Longrightarrow> bs \<le> int (length (verses_batch st)) + 1 \<Longrightarrow> bs \<noteq> 0 \<Longrightarrow>
   process_verse env bs meta tid st item = (submit_batch env (st\<lparr>verses_batch := verses_batch st @ [row]\<rparr>))\<lparr>verses_batch := []\<rparr>"
  by (simp add: process_verse_def Let_def py_mod_def)


lemma all_commit_sel: "md5_hexdigest all_commit t = py ''d41d8cd98f00b204e9800998ecf8427e''"
  "batch_outcome_of all_commit i = Batch_commits" "\<not> metadata_insert_raises all_commit"
  by (simp_all add: all_commit_def)

lemma test_row_hash: "(test_row key c n tafsir)\<lparr>data_hash := py ''d41d8cd98f00b204e9800998ecf8427e''\<rparr> = test_row key c n tafsir"
  by (simp add: test_row_def)

lemma test_loop:
  "foldl (process_verse all_commit 10 test_meta (JInt 9001))
      \<lparr>verses_batch = [], total_imported = 0, total_skipped = 0, translation_rows = t, submitted = []\<rparr> test_verses
   = \<lparr>verses_batch = [test_row (py ''1:1'') 1 1 (py ''In the name of Allah, the most merciful.''),
         test_row (py ''1:2'') 1 2 (py ''All praise is due to Allah, Lord of the worlds.''),
         test_row (py ''1:3'') 1 3 (py ''The most merciful, the most compassionate.'')],
       total_imported = 0, total_skipped = 0, translation_rows = t, submitted = []\<rparr>"
  unfolding test_verses_def
  by (simp add: process_verse_appends [OF test_verse_tuple] py_isspace_def all_commit_sel test_row_def)

lemma first_import:
  "import_tafsir_file all_commit 10 test_file False empty_database fresh_stats =
    (Inr True,
     \<lparr>quran_translations =
        [test_row (py ''1:1'') 1 1 (py ''In the name of Allah, the most merciful.''),
         test_row (py ''1:2'') 1 2 (py ''All praise is due to Allah, Lord of the worlds.''),
         test_row (py ''1:3'') 1 3 (py ''The most merciful, the most compassionate.'')],
      tafsir_metadata =
        [\<lparr>meta_translation_id = JInt 9001, meta_name = JStr (py ''Test Tafsir''),
          meta_author = JStr (py ''Test Author''), meta_language_code = JStr (py ''english''),
          meta_description = py ''Imported from altafsir.com - Test Tafsir'',
          meta_source_url = JStr (py ''https://www.altafsir.com''), meta_total_verses = 3,
          meta_file_path = py ''test_tafsir.json'',
          meta_data_checksum = py ''d41d8cd98f00b204e9800998ecf8427e''\<rparr>],
      import_log =
        [\<lparr>log_file_path = py ''test_tafsir.json'', log_translation_id = JInt 9001,
          verses_imported = 3, verses_skipped = 0, status = py ''completed'',
          error_message = None\<rparr>]\<rparr>,
     fresh_stats\<lparr>total_verses := 3, imported_verses := 3, skipped_verses := 0\<rparr>)"
proof -
  have data: "py_getitem (edition_document test_meta test_chs test_verses) (py ''meta'') = Inr test_meta"
    "py_getitem (edition_document test_meta test_chs test_verses) (py ''vs'') = Inr (JDict test_verses)"
    by (simp_all add: edition_document_def)
  have meta: "py_getitem test_meta (py ''tid'') = Inr (JInt 9001)"
    "py_getitem test_meta (py ''tn'') = Inr (JStr (py ''Test Tafsir''))"
    "py_getitem test_meta (py ''lang'') = Inr (JStr (py ''english''))"
    "py_get test_meta (py ''au'') d = Inr (JStr (py ''Test Author''))"
    "py_get test_meta (py ''source_url'') d = Inr d" for d
    by (simp_all add: test_meta_def)
  have len: "length test_verses = 3" by (simp add: test_verses_def)
  have md: "import_tafsir_metadata all_commit (edition_document test_meta test_chs test_verses) test_file empty_database
     = Inr (empty_database\<lparr>tafsir_metadata := [\<lparr>meta_translation_id = JInt 9001, meta_name = JStr (py ''Test Tafsir''),
          meta_author = JStr (py ''Test Author''), meta_language_code = JStr (py ''english''),
          meta_description = py ''Imported from altafsir.com - Test Tafsir'',
          meta_source_url = JStr (py ''https://www.altafsir.com''), meta_total_verses = 3,
          meta_file_path = py ''test_tafsir.json'',
          meta_data_checksum = py ''d41d8cd98f00b204e9800998ecf8427e''\<rparr>]\<rparr>)"
    by (simp add: import_tafsir_metadata_def data meta len test_file_def all_commit_sel replace_metadata_def empty_database_def py_format_def py_append)
  have vs: "import_tafsir_verses all_commit 10 (edition_document test_meta test_chs test_verses) [] =
     Inr \<lparr>verses_batch = [test_row (py ''1:1'') 1 1 (py ''In the name of Allah, the most merciful.''),
         test_row (py ''1:2'') 1 2 (py ''All praise is due to Allah, Lord of the worlds.''),
         test_row (py ''1:3'') 1 3 (py ''The most merciful, the most compassionate.'')],
       total_imported = 3, total_skipped = 0, translation_rows = [test_row (py ''1:1'') 1 1 (py ''In the name of Allah, the most merciful.''),
         test_row (py ''1:2'') 1 2 (py ''All praise is due to Allah, Lord of the worlds.''),
         test_row (py ''1:3'') 1 3 (py ''The most merciful, the most compassionate.'')], submitted = [[test_row (py ''1:1'') 1 1 (py ''In the name of Allah, the most merciful.''),
         test_row (py ''1:2'') 1 2 (py ''All praise is due to Allah, Lord of the worlds.''),
         test_row (py ''1:3'') 1 3 (py ''The most merciful, the most compassionate.'')]]\<rparr>"
    by (simp add: import_tafsir_verses_def data meta len test_loop submit_batch_def all_commit_sel
          import_verses_batch_commits test_row_insertable insert_or_replace_def)
  have sel: "tafsir_metadata empty_database = []" "quran_translations empty_database = []"
    by (simp_all add: empty_database_def)
  show ?thesis
    unfolding import_tafsir_file_def validate_test
    by (simp add: data meta check_existing_tafsir_def sel len
          import_tafsir_file_try_def md vs log_import_result_def)
       (simp add: empty_database_def test_file_def fresh_stats_def)
qed

section \<open>The idempotency gate of the importer\<close>

lemma check_existing_tafsir_iff:
  "check_existing_tafsir db tid \<longleftrightarrow> (\<exists>r \<in> set (tafsir_metadata db). meta_translation_id r = tid)"
  by (auto simp: check_existing_tafsir_def filter_empty_conv)

lemma import_tafsir_file_existing:
  assumes "validate_tafsir_file (loaded file) = (True, Some data)"
    and "py_getitem data (py ''meta'') = Inr meta"
    and "py_getitem meta (py ''tid'') = Inr tid"
    and "check_existing_tafsir db tid"
  shows "import_tafsir_file env batch_size file False db stats =
           (Inr True,
            db\<lparr>import_log := import_log db @
              [\<lparr>log_file_path = file_path file, log_translation_id = tid,
                verses_imported = 0, verses_skipped = 0, status = py ''skipped'',
                error_message = Some (Text (py ''Already imported''))\<rparr>]\<rparr>,
            stats)"
  using assms by (simp add: import_tafsir_file_def log_import_result_def)

lemma after_first_import_eq:
  "after_first_import =
     \<lparr>quran_translations =
        [test_row (py ''1:1'') 1 1 (py ''In the name of Allah, the most merciful.''),
         test_row (py ''1:2'') 1 2 (py ''All praise is due to Allah, Lord of the worlds.''),
         test_row (py ''1:3'') 1 3 (py ''The most merciful, the most compassionate.'')],
      tafsir_metadata =
        [\<lparr>meta_translation_id = JInt 9001, meta_name = JStr (py ''Test Tafsir''),
          meta_author = JStr (py ''Test Author''), meta_language_code = JStr (py ''english''),
          meta_description = py ''Imported from altafsir.com - Test Tafsir'',
          meta_source_url = JStr (py ''https://www.altafsir.com''), meta_total_verses = 3,
          meta_file_path = py ''test_tafsir.json'',
          meta_data_checksum = py ''d41d8cd98f00b204e9800998ecf8427e''\<rparr>],
      import_log =
        [\<lparr>log_file_path = py ''test_tafsir.json'', log_translation_id = JInt 9001,
          verses_imported = 3, verses_skipped = 0, status = py ''completed'',
          error_message = None\<rparr>]\<rparr>"
  unfolding after_first_import_def first_import by simp

lemma test_file_ids:
  "py_getitem (edition_document test_meta test_chs test_verses) (py ''meta'') = Inr test_meta"
  "py_getitem test_meta (py ''tid'') = Inr (JInt 9001)"
  by (simp_all add: edition_document_def test_meta_def)

lemma after_first_import_has_metadata: "check_existing_tafsir after_first_import (JInt 9001)"
  unfolding after_first_import_eq by (simp add: check_existing_tafsir_def)

text \<open>
  C1, as the code has it. When the edition id of a valid document already has a row in
  \<^verbatim>\<open>tafsir_metadata\<close> and the import is not forced, \<^verbatim>\<open>import_tafsir_file\<close> returns true
  after one thing only: it appends a log entry with status \<^verbatim>\<open>skipped\<close> and with 0 verses
  imported and 0 verses skipped. The verse rows, the metadata rows and the statistics
  are what they were.
\<close>

theorem import_skips_existing_edition:
  assumes "validate_tafsir_file (loaded file) = (True, Some data)"
    and "py_getitem data (py ''meta'') = Inr meta"
    and "py_getitem meta (py ''tid'') = Inr tid"
    and "\<exists>r \<in> set (tafsir_metadata db). meta_translation_id r = tid"
  shows "import_tafsir_file env batch_size file False db stats =
           (Inr True,
            db\<lparr>import_log := import_log db @
              [\<lparr>log_file_path = file_path file, log_translation_id = tid,
                verses_imported = 0, verses_skipped = 0, status = py ''skipped'',
                error_message = Some (Text (py ''Already imported''))\<rparr>]\<rparr>,
            stats)"
  using assms(4) import_tafsir_file_existing [OF assms(1-3)]
  by (simp add: check_existing_tafsir_iff)

text \<open>
  The end-to-end scenario: the three-verse test file is imported into an empty store and
  then imported again. The second import leaves the three rows of the first.
\<close>

theorem import_skips_existing_edition_witness:
  "validate_tafsir_file (loaded test_file) =
     (True, Some (edition_document test_meta test_chs test_verses))
   \<and> py_getitem (edition_document test_meta test_chs test_verses) (py ''meta'') = Inr test_meta
   \<and> py_getitem test_meta (py ''tid'') = Inr (JInt 9001)
   \<and> length (tafsir_metadata after_first_import) = 1
   \<and> meta_translation_id (hd (tafsir_metadata after_first_import)) = JInt 9001
   \<and> quran_translations after_second_import =
        [test_row (py ''1:1'') 1 1 (py ''In the name of Allah, the most merciful.''),
         test_row (py ''1:2'') 1 2 (py ''All praise is due to Allah, Lord of the worlds.''),
         test_row (py ''1:3'') 1 3 (py ''The most merciful, the most compassionate.'')]
   \<and> status (last (import_log after_second_import)) = py ''skipped''"
proof -
  have ex: "\<exists>r \<in> set (tafsir_metadata after_first_import). meta_translation_id r = JInt 9001"
    unfolding after_first_import_eq by simp
  have eq: "after_second_import =
          after_first_import\<lparr>import_log := import_log after_first_import @
              [\<lparr>log_file_path = file_path test_file, log_translation_id = JInt 9001,
                verses_imported = 0, verses_skipped = 0, status = py ''skipped'',
                error_message = Some (Text (py ''Already imported''))\<rparr>]\<rparr>"
    unfolding after_second_import_def
    using import_skips_existing_edition [OF validate_test test_file_ids ex] by simp
  show ?thesis
    unfolding eq using validate_test test_file_ids by (simp add: after_first_import_eq)
qed

text \<open>
  Against C1 as stated: the second import of the scenario reports 0 skipped verses, not
  3, in its log entry.
\<close>

theorem second_import_reports_zero_skipped:
  "verses_imported (last (import_log after_second_import)) = 0
   \<and> verses_skipped (last (import_log after_second_import)) = 0
   \<and> verses_skipped (last (import_log after_second_import)) \<noteq> 3
   \<and> status (last (import_log after_second_import)) = py ''skipped''
   \<and> length (quran_translations after_second_import) = 3"
proof -
  have eq: "after_second_import =
          after_first_import\<lparr>import_log := import_log after_first_import @
              [\<lparr>log_file_path = file_path test_file, log_translation_id = JInt 9001,
                verses_imported = 0, verses_skipped = 0, status = py ''skipped'',
                error_message = Some (Text (py ''Already imported''))\<rparr>]\<rparr>"
    unfolding after_second_import_def
    using import_tafsir_file_existing
            [OF validate_test test_file_ids after_first_import_has_metadata]
    by simp
  show ?thesis
    unfolding eq by (simp add: after_first_import_eq)
qed

section \<open>Progress files\<close>

lemma save_progress_returns: "fst (save_progress outcome progress f) = Inr ()"
  by (cases outcome) (simp_all add: save_progress_def save_progress_try_def)

text \<open>
  C5, as the code has it. \<^verbatim>\<open>save_progress\<close> returns normally whatever happens to the
  write, in the scraper and in the importer: when the write succeeds the file holds the
  progress and nothing is logged; when opening the file raises, the file is untouched
  and one error line is logged; when the dump raises, the file is left without valid
  content and one error line is logged. No exception reaches the caller.
\<close>

theorem save_progress_swallows_failure:
  "fst (save_progress outcome (progress :: scraper_progress) f) = Inr ()
   \<and> fst (save_progress outcome (progress' :: import_progress) f') = Inr ()
   \<and> (outcome = Write_succeeds \<longrightarrow>
        snd (save_progress outcome progress f) = (Holds progress, [])
        \<and> snd (save_progress outcome progress' f') = (Holds progress', []))
   \<and> (outcome = Open_raises \<longrightarrow>
        snd (save_progress outcome progress f) = (f, [Could_not_save_progress OSError])
        \<and> snd (save_progress outcome progress' f') = (f', [Could_not_save_progress OSError]))
   \<and> (outcome = Dump_raises \<longrightarrow>
        snd (save_progress outcome progress f) =
          (Invalid_json, [Could_not_save_progress OSError])
        \<and> snd (save_progress outcome progress' f') =
          (Invalid_json, [Could_not_save_progress OSError]))"
  by (cases outcome) (simp_all add: save_progress_def save_progress_try_def)

theorem save_progress_swallows_failure_witness:
  "save_progress Open_raises scraper_default_progress No_file =
     (Inr (), No_file, [Could_not_save_progress OSError])
   \<and> save_progress Dump_raises importer_default_progress (Holds importer_default_progress) =
     (Inr (), Invalid_json, [Could_not_save_progress OSError])
   \<and> save_progress Write_succeeds scraper_default_progress No_file =
     (Inr (), Holds scraper_default_progress, [])"
  using save_progress_swallows_failure
          [of Open_raises scraper_default_progress No_file importer_default_progress No_file]
        save_progress_swallows_failure
          [of Dump_raises scraper_default_progress No_file importer_default_progress
              "Holds importer_default_progress"]
        save_progress_swallows_failure
          [of Write_succeeds scraper_default_progress No_file importer_default_progress No_file]
  by (simp add: prod_eq_iff)

text \<open>
  Against C5 as stated: with a progress file that cannot be opened for writing,
  \<^verbatim>\<open>save_progress\<close> of either class returns normally; the error does not reach the
  caller.
\<close>

theorem save_progress_failure_not_propagated:
  "fst (save_progress Open_raises scraper_default_progress No_file) \<noteq> Inl OSError
   \<and> fst (save_progress Open_raises importer_default_progress No_file) \<noteq> Inl OSError
   \<and> fst (save_progress Open_raises scraper_default_progress No_file) = Inr ()
   \<and> fst (save_progress Open_raises importer_default_progress No_file) = Inr ()"
  by (simp add: save_progress_returns)

text \<open>
  C10. \<^verbatim>\<open>load_progress\<close> of the scraper and of the importer returns a value for every
  state of the progress file. For a file that is missing, unreadable or not JSON that
  value is the default of the class: empty completed lists and no current item. For a
  file that holds a progress value it is that value.
\<close>

theorem load_progress_never_raises:
  "(\<exists>p. fst (scraper_load_progress f) = Inr p)
   \<and> (\<exists>q. fst (importer_load_progress g) = Inr q)
   \<and> (f \<in> {No_file, Unreadable, Invalid_json} \<longrightarrow>
        fst (scraper_load_progress f) =
          Inr \<lparr>completed_tafasir = Some [], current_tafsir = None, current_chapter = 1,
               completed_chapters = None\<rparr>)
   \<and> (g \<in> {No_file, Unreadable, Invalid_json} \<longrightarrow>
        fst (importer_load_progress g) =
          Inr \<lparr>progress_processed_files = Some [], progress_failed_files = Some [],
               progress_last_file = None\<rparr>)
   \<and> fst (scraper_load_progress (Holds p0)) = Inr p0
   \<and> fst (importer_load_progress (Holds q0)) = Inr q0"
  by (cases f; cases g)
     (simp_all add: scraper_load_progress_def importer_load_progress_def load_progress_def
        load_progress_try_def scraper_default_progress_def importer_default_progress_def)

theorem load_progress_never_raises_witness:
  "fst (scraper_load_progress Invalid_json) =
     Inr \<lparr>completed_tafasir = Some [], current_tafsir = None, current_chapter = 1,
          completed_chapters = None\<rparr>
   \<and> fst (importer_load_progress Unreadable) =
     Inr \<lparr>progress_processed_files = Some [], progress_failed_files = Some [],
          progress_last_file = None\<rparr>
   \<and> fst (importer_load_progress No_file) =
     Inr \<lparr>progress_processed_files = Some [], progress_failed_files = Some [],
          progress_last_file = None\<rparr>"
  using load_progress_never_raises [of Invalid_json Unreadable]
        load_progress_never_raises [of Invalid_json No_file]
  by simp

section \<open>The import loop\<close>

lemma py_strip_empty_iff: "py_strip s = [] \<longleftrightarrow> list_all py_isspace s"
proof
  assume "list_all py_isspace s"
  then have dw: "dropWhile py_isspace s = []"
    by (induction s) simp_all
  show "py_strip s = []"
    unfolding py_strip_def dw by simp
next
  assume a: "py_strip s = []"
  show "list_all py_isspace s"
  proof (cases "dropWhile py_isspace s")
    case Nil
    then show ?thesis
      by (simp add: list_all_iff dropWhile_eq_Nil_conv)
  next
    case (Cons c cs)
    then have "\<not> py_isspace c"
      using hd_dropWhile [of py_isspace s] by simp
    moreover from a Cons have "\<forall>x \<in> set (c # cs). py_isspace x"
      by (simp add: py_strip_def dropWhile_eq_Nil_conv)
    ultimately show ?thesis by simp
  qed
qed

lemma blank_entryE:
  assumes "blank_entry verse_data"
  obtains entries tf s where "verse_data = JDict entries"
    and "map_of entries (py ''tf'') = Some (JDict tf)"
    and "map_of tf (py ''t'') = Some (JStr s)"
    and "list_all py_isspace s"
  using assms unfolding blank_entry_def
  by (auto split: json.splits option.splits)

lemma verse_tuple_blank:
  assumes "blank_entry verse_data"
  shows "verse_tuple env meta tid key verse_data = Inr None"
proof -
  from assms obtain entries tf s where "verse_data = JDict entries"
    and "map_of entries (py ''tf'') = Some (JDict tf)"
    and "map_of tf (py ''t'') = Some (JStr s)"
    and "list_all py_isspace s"
    by (rule blank_entryE)
  then show ?thesis
    by (simp add: verse_tuple_def py_strip_empty_iff)
qed

lemma verse_tuple_row:
  "verse_tuple env meta tid key verse_data = Inr (Some row) \<Longrightarrow>
     verse_key row = key \<and> translation_id row = tid"
  by (auto simp: verse_tuple_def split: sum.splits if_splits json.splits)

lemma verse_tuple_rekey:
  "verse_tuple env meta tid key' verse_data =
     (case verse_tuple env meta tid key verse_data of
        Inl e \<Rightarrow> Inl e
      | Inr None \<Rightarrow> Inr None
      | Inr (Some row) \<Rightarrow> Inr (Some (row\<lparr>verse_key := key'\<rparr>)))"
  by (auto simp: verse_tuple_def split: sum.splits json.splits)

lemma submit_batch_fields:
  "verses_batch (submit_batch env st) = verses_batch st"
  "submitted (submit_batch env st) = submitted st @ [verses_batch st]"
  "total_imported (submit_batch env st) =
     total_imported st
       + fst (fst (import_verses_batch (batch_outcome_of env (length (submitted st)))
                     (verses_batch st) (translation_rows st)))"
  "total_skipped (submit_batch env st) =
     total_skipped st
       + snd (fst (import_verses_batch (batch_outcome_of env (length (submitted st)))
                     (verses_batch st) (translation_rows st)))"
  "translation_rows (submit_batch env st) =
     snd (import_verses_batch (batch_outcome_of env (length (submitted st)))
            (verses_batch st) (translation_rows st))"
  by (simp_all add: submit_batch_def split: prod.splits)

lemma import_verses_batch_counts:
  "fst (import_verses_batch outcome batch table) =
     (if outcome = Executemany_raises \<or> \<not> list_all insertable batch
      then (0, int (length batch))
      else if outcome = Commit_raises then (int (length batch), int (length batch))
      else (int (length batch), 0))"
proof (cases "list_all insertable batch")
  case True
  then show ?thesis
    by (cases outcome)
       (simp_all add: import_verses_batch_commits import_verses_batch_executemany_raises
          import_verses_batch_commit_raises)
next
  case False
  then show ?thesis
    by (simp add: import_verses_batch_refused)
qed

lemma import_verses_batch_rows:
  "snd (import_verses_batch outcome batch table) =
     (if outcome = Batch_commits \<and> list_all insertable batch
      then foldl (\<lambda>t r. insert_or_replace r t) table batch
      else table)"
proof (cases "list_all insertable batch")
  case True
  then show ?thesis
    by (cases outcome)
       (simp_all add: import_verses_batch_commits import_verses_batch_executemany_raises
          import_verses_batch_commit_raises)
next
  case False
  then show ?thesis
    by (simp add: import_verses_batch_refused)
qed

lemma import_verses_batch_skipped_nonneg:
  "0 \<le> snd (fst (import_verses_batch outcome batch table))"
  by (simp add: import_verses_batch_counts)

subsection \<open>Rows of a key that is never accepted\<close>

lemma rows_for_insert_other:
  "verse_key r \<noteq> key \<Longrightarrow> rows_for key (insert_or_replace r table) = rows_for key table"
  unfolding rows_for_def insert_or_replace_def
  by (auto intro: filter_cong)

lemma rows_for_executed:
  "key \<notin> verse_key ` set batch \<Longrightarrow>
     rows_for key (foldl (\<lambda>t r. insert_or_replace r t) table batch) = rows_for key table"
  by (induction batch arbitrary: table) (auto simp: rows_for_insert_other)

lemma rows_for_import_verses_batch:
  "key \<notin> verse_key ` set batch \<Longrightarrow>
     rows_for key (snd (import_verses_batch outcome batch table)) = rows_for key table"
  by (simp add: import_verses_batch_rows rows_for_executed)

lemma untouched_submit:
  "untouched key t0 st \<Longrightarrow> untouched key t0 (submit_batch env st)"
  by (simp add: untouched_def submit_batch_fields rows_for_import_verses_batch)

lemma untouched_process_verse:
  assumes "untouched key t0 st"
    and "fst item = key \<Longrightarrow> blank_entry (snd item)"
  shows "untouched key t0 (process_verse env batch_size meta tid st item)"
proof (cases "verse_tuple env meta tid (fst item) (snd item)")
  case (Inl e)
  with assms(1) show ?thesis
    by (simp add: process_verse_def untouched_def)
next
  case (Inr result)
  show ?thesis
  proof (cases result)
    case None
    with Inr assms(1) show ?thesis
      by (simp add: process_verse_def untouched_def)
  next
    case (Some row)
    with Inr have key: "verse_key row = fst item"
      by (simp add: verse_tuple_row)
    from Some Inr assms(2) have "fst item \<noteq> key"
      by (auto simp: verse_tuple_blank)
    with key assms(1) have a: "untouched key t0 (st\<lparr>verses_batch := verses_batch st @ [row]\<rparr>)"
      by (simp add: untouched_def)
    have b: "untouched key t0 s \<Longrightarrow> untouched key t0 (s\<lparr>verses_batch := []\<rparr>)" for s
      by (simp add: untouched_def)
    have c: "untouched key t0 s \<Longrightarrow> untouched key t0 (s\<lparr>total_skipped := n\<rparr>)" for s n
      by (simp add: untouched_def)
    from a b c untouched_submit show ?thesis
      using Inr Some by (simp add: process_verse_def Let_def split: sum.splits)
  qed
qed

lemma untouched_loop:
  assumes "\<forall>item \<in> set items. fst item = key \<longrightarrow> blank_entry (snd item)"
    and "untouched key t0 st"
  shows "untouched key t0 (foldl (process_verse env batch_size meta tid) st items)"
  using assms by (induction items arbitrary: st) (simp_all add: untouched_process_verse)

subsection \<open>Skipped records are counted\<close>

lemma process_verse_skipped_mono:
  "total_skipped st \<le> total_skipped (process_verse env batch_size meta tid st item)"
  using import_verses_batch_skipped_nonneg
  by (simp add: process_verse_def Let_def submit_batch_fields
           split: sum.splits option.splits)

lemma process_verse_blank:
  "blank_entry (snd item) \<Longrightarrow>
     process_verse env batch_size meta tid st item = st\<lparr>total_skipped := total_skipped st + 1\<rparr>"
  by (simp add: process_verse_def verse_tuple_blank)

lemma loop_counts_blank:
  "total_skipped st + int (length (filter (\<lambda>item. blank_entry (snd item)) items))
     \<le> total_skipped (foldl (process_verse env batch_size meta tid) st items)"
proof (induction items arbitrary: st)
  case Nil
  then show ?case by simp
next
  case (Cons item items)
  show ?case
  proof (cases "blank_entry (snd item)")
    case True
    then show ?thesis
      using Cons [of "st\<lparr>total_skipped := total_skipped st + 1\<rparr>"]
      by (simp add: process_verse_blank)
  next
    case False
    then show ?thesis
      using Cons [of "process_verse env batch_size meta tid st item"]
        process_verse_skipped_mono [of st env batch_size meta tid item]
      by simp
  qed
qed

section \<open>Records with a blank text\<close>

lemma total_skipped_submit_mono: "total_skipped st \<le> total_skipped (submit_batch env st)"
  using import_verses_batch_skipped_nonneg by (simp add: submit_batch_fields)

lemma import_tafsir_verses_eq:
  assumes "py_getitem data (py ''meta'') = Inr meta"
    and "py_getitem meta (py ''tid'') = Inr tid"
    and "py_getitem meta (py ''tn'') = Inr tn"
    and "py_getitem data (py ''vs'') = Inr (JDict items)"
  shows "import_tafsir_verses env batch_size data table =
           Inr (let st = foldl (process_verse env batch_size meta tid)
                           \<lparr>verses_batch = [], total_imported = 0, total_skipped = 0,
                            translation_rows = table, submitted = []\<rparr> items
                in if verses_batch st \<noteq> [] then submit_batch env st else st)"
  using assms by (simp add: import_tafsir_verses_def Let_def)

lemma document_parts:
  "py_getitem (edition_document meta chs items) (py ''meta'') = Inr meta"
  "py_getitem (edition_document meta chs items) (py ''vs'') = Inr (JDict items)"
  by (simp_all add: edition_document_def)

lemma test_meta_parts:
  "py_getitem test_meta (py ''tid'') = Inr (JInt 9001)"
  "py_getitem test_meta (py ''tn'') = Inr (JStr (py ''Test Tafsir''))"
  by (simp_all add: test_meta_def)

lemma blank_test_verse: "blank_entry (snd (test_verse key chapter verse (py ''   '')))"
  by (simp add: blank_entry_def test_verse_def py_def py_isspace_def)

text \<open>
  C8. Let the verses of a document have pairwise distinct keys, and let one entry have a
  tafsir text that is empty or white space only. The loop step for that entry adds one
  to the skipped count and changes nothing else. The whole import returns, its skipped
  count is at least the number of such entries, no batch handed to the store contains a
  row for the key, and the rows that the store holds for the key are those it held
  before, whatever happens to the batches.
\<close>

theorem blank_text_is_skipped:
  assumes "py_getitem data (py ''meta'') = Inr meta"
    and "py_getitem meta (py ''tid'') = Inr tid"
    and "py_getitem meta (py ''tn'') = Inr tn"
    and "py_getitem data (py ''vs'') = Inr (JDict items)"
    and "distinct (map fst items)"
    and "(key, verse_data) \<in> set items"
    and "blank_entry verse_data"
  shows "process_verse env batch_size meta tid st (key, verse_data) =
           st\<lparr>total_skipped := total_skipped st + 1\<rparr>
         \<and> (\<exists>final. import_tafsir_verses env batch_size data table = Inr final
               \<and> int (length (filter (\<lambda>item. blank_entry (snd item)) items))
                   \<le> total_skipped final
               \<and> list_all (\<lambda>batch. key \<notin> verse_key ` set batch) (submitted final)
               \<and> rows_for key (translation_rows final) = rows_for key table)"
proof -
  let ?init = "\<lparr>verses_batch = [], total_imported = 0, total_skipped = 0,
                translation_rows = table, submitted = []\<rparr>"
  let ?st = "foldl (process_verse env batch_size meta tid) ?init items"
  let ?final = "if verses_batch ?st \<noteq> [] then submit_batch env ?st else ?st"
  have step: "process_verse env batch_size meta tid st (key, verse_data) =
                st\<lparr>total_skipped := total_skipped st + 1\<rparr>"
    using assms(7) by (simp add: process_verse_blank)
  have only: "\<forall>item \<in> set items. fst item = key \<longrightarrow> blank_entry (snd item)"
  proof (intro ballI impI)
    fix item
    assume "item \<in> set items" "fst item = key"
    then have "(key, snd item) \<in> set items"
      by (metis prod.collapse)
    with assms(5,6) have "snd item = verse_data"
      by (meson eq_key_imp_eq_value)
    with assms(7) show "blank_entry (snd item)"
      by simp
  qed
  have "untouched key table ?init"
    by (simp add: untouched_def)
  with only have u: "untouched key table ?st"
    by (rule untouched_loop)
  then have uf: "untouched key table ?final"
    by (simp add: untouched_submit)
  have "int (length (filter (\<lambda>item. blank_entry (snd item)) items)) \<le> total_skipped ?st"
    using loop_counts_blank [of ?init items env batch_size meta tid] by simp
  also have "\<dots> \<le> total_skipped ?final"
    by (simp add: total_skipped_submit_mono)
  finally have count:
    "int (length (filter (\<lambda>item. blank_entry (snd item)) items)) \<le> total_skipped ?final" .
  have "import_tafsir_verses env batch_size data table = Inr ?final"
    using import_tafsir_verses_eq [OF assms(1-4)] by (simp add: Let_def)
  with uf count step show ?thesis
    unfolding untouched_def by blast
qed

theorem blank_text_is_skipped_witness:
  "distinct (map fst one_blank_one_full)
   \<and> (py ''1:1'', snd (test_verse (py ''1:1'') 1 1 (py ''   ''))) \<in> set one_blank_one_full
   \<and> blank_entry (snd (test_verse (py ''1:1'') 1 1 (py ''   '')))
   \<and> (\<exists>final.
         import_tafsir_verses all_commit 10
           (edition_document test_meta test_chs one_blank_one_full) [] = Inr final
         \<and> 1 \<le> total_skipped final
         \<and> list_all (\<lambda>batch. py ''1:1'' \<notin> verse_key ` set batch) (submitted final)
         \<and> rows_for (py ''1:1'') (translation_rows final) = [])"
proof -
  have d: "distinct (map fst one_blank_one_full)"
    by (simp add: one_blank_one_full_def test_verse_def)
  have m: "(py ''1:1'', snd (test_verse (py ''1:1'') 1 1 (py ''   '')))
             \<in> set one_blank_one_full"
    by (simp add: one_blank_one_full_def test_verse_def)
  have n: "length (filter (\<lambda>item. blank_entry (snd item)) one_blank_one_full) = 1"
    by (simp add: one_blank_one_full_def blank_test_verse)
       (simp add: blank_entry_def test_verse_def py_def py_isspace_def)
  show ?thesis
    using blank_text_is_skipped
            [OF document_parts(1) test_meta_parts document_parts(2) d m blank_test_verse,
             of all_commit 10 undefined test_chs "[]"]
          d m blank_test_verse n
    by (auto simp: rows_for_def)
qed

section \<open>The import does not look at verse keys\<close>

lemma import_tafsir_verses_document:
  assumes "py_getitem meta (py ''tid'') = Inr tid"
    and "py_getitem meta (py ''tn'') = Inr tn"
  shows "import_tafsir_verses env batch_size (edition_document meta chs items) table =
           Inr (let st = foldl (process_verse env batch_size meta tid)
                           \<lparr>verses_batch = [], total_imported = 0, total_skipped = 0,
                            translation_rows = table, submitted = []\<rparr> items
                in if verses_batch st \<noteq> [] then submit_batch env st else st)"
  using import_tafsir_verses_eq [OF document_parts(1) assms document_parts(2)] .

lemma process_verse_not_accepted:
  assumes "\<forall>row. verse_tuple env meta tid key verse_data \<noteq> Inr (Some row)"
  shows "process_verse env batch_size meta tid st (key, verse_data) =
           st\<lparr>total_skipped := total_skipped st + 1\<rparr>"
proof (cases "verse_tuple env meta tid key verse_data")
  case (Inl e)
  then show ?thesis
    by (simp add: process_verse_def)
next
  case (Inr result)
  with assms have "result = None"
    by (cases result) simp_all
  with Inr show ?thesis
    by (simp add: process_verse_def)
qed

text \<open>
  C4, as the code has it. The loop of the import never parses a key of the verses map
  and never passes it to a validator: what the loop decides for an entry (an exception,
  a blank text, or a row for the store) is the same under every key, and a row that it
  builds carries the key of the entry as it is. An entry for which the loop builds no
  row adds one to the skipped count and changes nothing else, and the import of a
  document whose \<^verbatim>\<open>meta\<close> has \<^verbatim>\<open>tid\<close> and \<^verbatim>\<open>tn\<close> returns its two counts whatever the
  entries are: a skipped entry does not fail the document.
\<close>

theorem import_does_not_check_verse_keys:
  "verse_tuple env meta tid key' verse_data =
     (case verse_tuple env meta tid key verse_data of
        Inl e \<Rightarrow> Inl e
      | Inr None \<Rightarrow> Inr None
      | Inr (Some row) \<Rightarrow> Inr (Some (row\<lparr>verse_key := key'\<rparr>)))
   \<and> (\<forall>row. verse_tuple env meta tid key verse_data = Inr (Some row) \<longrightarrow>
          verse_key row = key)
   \<and> ((\<forall>row. verse_tuple env meta tid key verse_data \<noteq> Inr (Some row)) \<longrightarrow>
        process_verse env batch_size meta tid st (key, verse_data) =
          st\<lparr>total_skipped := total_skipped st + 1\<rparr>)
   \<and> (py_getitem meta (py ''tid'') = Inr tid \<and> py_getitem meta (py ''tn'') = Inr tn \<longrightarrow>
        (\<exists>imported skipped.
           returned_counts
             (import_tafsir_verses env batch_size (edition_document meta chs items) table)
           = Inr (imported, skipped)))"
proof -
  have a: "verse_tuple env meta tid key' verse_data =
     (case verse_tuple env meta tid key verse_data of
        Inl e \<Rightarrow> Inl e
      | Inr None \<Rightarrow> Inr None
      | Inr (Some row) \<Rightarrow> Inr (Some (row\<lparr>verse_key := key'\<rparr>)))"
    by (rule verse_tuple_rekey)
  have b: "\<forall>row. verse_tuple env meta tid key verse_data = Inr (Some row) \<longrightarrow>
             verse_key row = key"
    by (simp add: verse_tuple_row)
  have c: "(\<forall>row. verse_tuple env meta tid key verse_data \<noteq> Inr (Some row)) \<longrightarrow>
        process_verse env batch_size meta tid st (key, verse_data) =
          st\<lparr>total_skipped := total_skipped st + 1\<rparr>"
    by (simp add: process_verse_not_accepted)
  have d: "py_getitem meta (py ''tid'') = Inr tid \<and> py_getitem meta (py ''tn'') = Inr tn \<longrightarrow>
        (\<exists>imported skipped.
           returned_counts
             (import_tafsir_verses env batch_size (edition_document meta chs items) table)
           = Inr (imported, skipped))"
    by (auto simp: import_tafsir_verses_document returned_counts_def Let_def)
  from a b c d show ?thesis
    by blast
qed

theorem import_does_not_check_verse_keys_witness:
  "verse_tuple all_commit test_meta (JInt 9001) (py ''not-a-verse'')
     (snd (test_verse (py ''2:6'') 2 6 (py ''f''))) =
     Inr (Some (test_row (py ''not-a-verse'') 2 6 (py ''f'')))
   \<and> process_verse all_commit 1000 test_meta (JInt 9001)
        \<lparr>verses_batch = [], total_imported = 0, total_skipped = 0, translation_rows = [],
         submitted = []\<rparr>
        (py ''1:1'', snd (test_verse (py ''1:1'') 1 1 (py ''   ''))) =
       \<lparr>verses_batch = [], total_imported = 0, total_skipped = 1, translation_rows = [],
        submitted = []\<rparr>
   \<and> py_getitem test_meta (py ''tid'') = Inr (JInt 9001)
   \<and> py_getitem test_meta (py ''tn'') = Inr (JStr (py ''Test Tafsir''))
   \<and> (\<exists>imported skipped.
         returned_counts
           (import_tafsir_verses all_commit 1000
              (edition_document test_meta test_chs one_blank_one_full) [])
         = Inr (imported, skipped))"
proof -
  note accepted = import_does_not_check_verse_keys
    [of all_commit test_meta "JInt 9001" "py ''not-a-verse''"
        "snd (test_verse (py ''2:6'') 2 6 (py ''f''))" "py ''2:6''" 1000
        "\<lparr>verses_batch = [], total_imported = 0, total_skipped = 0, translation_rows = [],
          submitted = []\<rparr>"
        "JStr (py ''Test Tafsir'')" test_chs one_blank_one_full "[]"]
  note skipped = import_does_not_check_verse_keys
    [of all_commit test_meta "JInt 9001" "py ''not-a-verse''"
        "snd (test_verse (py ''1:1'') 1 1 (py ''   ''))" "py ''1:1''" 1000
        "\<lparr>verses_batch = [], total_imported = 0, total_skipped = 0, translation_rows = [],
          submitted = []\<rparr>"
        "JStr (py ''Test Tafsir'')" test_chs one_blank_one_full "[]"]
  have row: "verse_tuple all_commit test_meta (JInt 9001) (py ''2:6'')
               (snd (test_verse (py ''2:6'') 2 6 (py ''f''))) =
             Inr (Some (test_row (py ''2:6'') 2 6 (py ''f'')))"
    using test_verse_tuple [of "''f''" all_commit "py ''2:6''" 2 6]
    by (simp add: py_isspace_def all_commit_sel test_verse_def test_row_def)
  have blank: "\<forall>row. verse_tuple all_commit test_meta (JInt 9001) (py ''1:1'')
                 (snd (test_verse (py ''1:1'') 1 1 (py ''   ''))) \<noteq> Inr (Some row)"
    by (simp add: verse_tuple_blank blank_test_verse)
  from accepted row
  have 1: "verse_tuple all_commit test_meta (JInt 9001) (py ''not-a-verse'')
             (snd (test_verse (py ''2:6'') 2 6 (py ''f''))) =
           Inr (Some (test_row (py ''not-a-verse'') 2 6 (py ''f'')))"
    by (simp add: test_row_def)
  from skipped blank
  have 2: "process_verse all_commit 1000 test_meta (JInt 9001)
        \<lparr>verses_batch = [], total_imported = 0, total_skipped = 0, translation_rows = [],
         submitted = []\<rparr>
        (py ''1:1'', snd (test_verse (py ''1:1'') 1 1 (py ''   ''))) =
       \<lparr>verses_batch = [], total_imported = 0, total_skipped = 1, translation_rows = [],
        submitted = []\<rparr>"
    by simp
  from accepted test_meta_parts
  have 3: "\<exists>imported skipped.
         returned_counts
           (import_tafsir_verses all_commit 1000
              (edition_document test_meta test_chs one_blank_one_full) [])
         = Inr (imported, skipped)"
    by blast
  from 1 2 3 test_meta_parts show ?thesis
    by blast
qed

section \<open>Evaluating the import loop on the sample documents\<close>

lemma sample_digest:
  "md5_hexdigest first_commit_raises t = py ''d41d8cd98f00b204e9800998ecf8427e''"
  "md5_hexdigest first_insert_raises t = py ''d41d8cd98f00b204e9800998ecf8427e''"
  by (simp_all add: first_commit_raises_def first_insert_raises_def all_commit_def)

lemma sample_outcomes:
  "batch_outcome_of first_commit_raises 0 = Commit_raises"
  "batch_outcome_of first_commit_raises (Suc 0) = Batch_commits"
  "batch_outcome_of first_insert_raises 0 = Executemany_raises"
  "batch_outcome_of first_insert_raises (Suc 0) = Batch_commits"
  by (simp_all add: first_commit_raises_def first_insert_raises_def all_commit_def)

lemma test_verse_row:
  assumes "tafsir \<noteq> []" "\<not> py_isspace (of_char (hd tafsir))"
    and "list_all (\<lambda>c. of_char c < (128::nat)) tafsir"
    and "md5_hexdigest env (py tafsir) = py ''d41d8cd98f00b204e9800998ecf8427e''"
  shows "verse_tuple env test_meta (JInt 9001) (fst (test_verse key c n (py tafsir)))
           (snd (test_verse key c n (py tafsir))) = Inr (Some (test_row key c n (py tafsir)))"
  using test_verse_tuple [OF assms(1-3), of env key c n] assms(4)
  by (simp add: test_row_def)

lemma malformed_loop:
  "foldl (process_verse all_commit 1000 test_meta (JInt 9001))
     \<lparr>verses_batch = [], total_imported = 0, total_skipped = 0, translation_rows = [],
      submitted = []\<rparr> ten_valid_one_malformed =
   \<lparr>verses_batch =
      [test_row (py ''2:1'') 2 1 (py ''a''), test_row (py ''2:2'') 2 2 (py ''b''),
       test_row (py ''2:3'') 2 3 (py ''c''), test_row (py ''2:4'') 2 4 (py ''d''),
       test_row (py ''2:5'') 2 5 (py ''e''), test_row (py ''not-a-verse'') 2 6 (py ''f''),
       test_row (py ''2:6'') 2 6 (py ''g''), test_row (py ''2:7'') 2 7 (py ''h''),
       test_row (py ''2:8'') 2 8 (py ''i''), test_row (py ''2:9'') 2 9 (py ''j''),
       test_row (py ''2:10'') 2 10 (py ''k'')],
    total_imported = 0, total_skipped = 0, translation_rows = [], submitted = []\<rparr>"
  unfolding ten_valid_one_malformed_def
  by (simp add: process_verse_appends [OF test_verse_row] py_isspace_def all_commit_sel)

lemma malformed_import:
  "import_tafsir_verses all_commit 1000
     (edition_document test_meta test_chs ten_valid_one_malformed) [] =
   Inr \<lparr>verses_batch =
      [test_row (py ''2:1'') 2 1 (py ''a''), test_row (py ''2:2'') 2 2 (py ''b''),
       test_row (py ''2:3'') 2 3 (py ''c''), test_row (py ''2:4'') 2 4 (py ''d''),
       test_row (py ''2:5'') 2 5 (py ''e''), test_row (py ''not-a-verse'') 2 6 (py ''f''),
       test_row (py ''2:6'') 2 6 (py ''g''), test_row (py ''2:7'') 2 7 (py ''h''),
       test_row (py ''2:8'') 2 8 (py ''i''), test_row (py ''2:9'') 2 9 (py ''j''),
       test_row (py ''2:10'') 2 10 (py ''k'')],
    total_imported = 11, total_skipped = 0,
    translation_rows =
      [test_row (py ''2:1'') 2 1 (py ''a''), test_row (py ''2:2'') 2 2 (py ''b''),
       test_row (py ''2:3'') 2 3 (py ''c''), test_row (py ''2:4'') 2 4 (py ''d''),
       test_row (py ''2:5'') 2 5 (py ''e''), test_row (py ''not-a-verse'') 2 6 (py ''f''),
       test_row (py ''2:6'') 2 6 (py ''g''), test_row (py ''2:7'') 2 7 (py ''h''),
       test_row (py ''2:8'') 2 8 (py ''i''), test_row (py ''2:9'') 2 9 (py ''j''),
       test_row (py ''2:10'') 2 10 (py ''k'')],
    submitted =
      [[test_row (py ''2:1'') 2 1 (py ''a''), test_row (py ''2:2'') 2 2 (py ''b''),
        test_row (py ''2:3'') 2 3 (py ''c''), test_row (py ''2:4'') 2 4 (py ''d''),
        test_row (py ''2:5'') 2 5 (py ''e''), test_row (py ''not-a-verse'') 2 6 (py ''f''),
        test_row (py ''2:6'') 2 6 (py ''g''), test_row (py ''2:7'') 2 7 (py ''h''),
        test_row (py ''2:8'') 2 8 (py ''i''), test_row (py ''2:9'') 2 9 (py ''j''),
        test_row (py ''2:10'') 2 10 (py ''k'')]]\<rparr>"
  unfolding import_tafsir_verses_document [OF test_meta_parts] malformed_loop
  by (simp add: submit_batch_def all_commit_sel import_verses_batch_commits test_row_insertable insert_or_replace_def)

text \<open>
  Against C4 as stated: the document with ten valid verse keys and the key
  \<^verbatim>\<open>not-a-verse\<close> imports eleven rows and skips none; the malformed key is stored.
\<close>

theorem malformed_key_is_imported:
  "returned_counts
     (import_tafsir_verses all_commit 1000
        (edition_document test_meta test_chs ten_valid_one_malformed) []) = Inr (11, 0)
   \<and> stored_keys
        (import_tafsir_verses all_commit 1000
           (edition_document test_meta test_chs ten_valid_one_malformed) []) =
       Inr [py ''2:1'', py ''2:2'', py ''2:3'', py ''2:4'', py ''2:5'', py ''not-a-verse'',
            py ''2:6'', py ''2:7'', py ''2:8'', py ''2:9'', py ''2:10'']"
  unfolding malformed_import by (simp add: returned_counts_def stored_keys_def)

text \<open>
  A key that the store cannot encode is not rejected by the loop either: the loop builds
  the row, and the batch that contains it is refused by the store as a whole.
\<close>

lemma surrogate_key_refused_by_store:
  "returned_counts
     (import_tafsir_verses all_commit 1000
        (edition_document test_meta test_chs surrogate_key_verses) []) = Inr (0, 2)
   \<and> stored_keys
        (import_tafsir_verses all_commit 1000
           (edition_document test_meta test_chs surrogate_key_verses) []) = Inr []"
proof -
  have "\<not> insertable (test_row [0xD800] 2 2 (py ''b''))"
    by (simp add: insertable_def bind_row_def test_row_def utf8_char_def)
  then have r: "\<not> list_all insertable
                   [test_row (py ''2:1'') 2 1 (py ''a''), test_row [0xD800] 2 2 (py ''b'')]"
    by simp
  show ?thesis
    unfolding import_tafsir_verses_document [OF test_meta_parts] surrogate_key_verses_def
    by (simp add: process_verse_appends [OF test_verse_row] py_isspace_def all_commit_sel
          submit_batch_def import_verses_batch_refused [OF r]
          returned_counts_def stored_keys_def)
qed

subsection \<open>A batch whose insert or commit raises\<close>

lemma insert_raises_import:
  "returned_counts
     (import_tafsir_verses first_insert_raises 2
        (edition_document test_meta test_chs test_verses) []) = Inr (1, 2)
   \<and> stored_keys
        (import_tafsir_verses first_insert_raises 2
           (edition_document test_meta test_chs test_verses) []) = Inr [py ''1:3'']"
  unfolding import_tafsir_verses_document [OF test_meta_parts] test_verses_def
  by (simp add: process_verse_appends [OF test_verse_row]
        process_verse_submits [OF test_verse_row] py_isspace_def sample_digest
        submit_batch_def sample_outcomes import_verses_batch_commits test_row_insertable
        import_verses_batch_executemany_raises insert_or_replace_def
        returned_counts_def stored_keys_def)

text \<open>
  C3 at a commit that raises. The test file is imported in batches of two into an empty
  store whose first commit raises. The two records of the first batch are rolled back
  and the second batch is stored, but the two records are counted as imported as well
  as skipped: the call returns 3 imported and 2 skipped, with one row in the store.
\<close>

theorem commit_failure_counted_as_imported:
  "returned_counts
     (import_tafsir_verses first_commit_raises 2
        (edition_document test_meta test_chs test_verses) []) = Inr (3, 2)
   \<and> stored_keys
        (import_tafsir_verses first_commit_raises 2
           (edition_document test_meta test_chs test_verses) []) = Inr [py ''1:3'']
   \<and> import_verses_batch Commit_raises
        [test_row (py ''1:1'') 1 1 (py ''a''), test_row (py ''1:2'') 1 2 (py ''b'')] [] =
       ((2, 2), [])"
  unfolding import_tafsir_verses_document [OF test_meta_parts] test_verses_def
  by (simp add: process_verse_appends [OF test_verse_row]
        process_verse_submits [OF test_verse_row] py_isspace_def sample_digest
        submit_batch_def sample_outcomes import_verses_batch_commits test_row_insertable
        import_verses_batch_commit_raises insert_or_replace_def
        returned_counts_def stored_keys_def)

section \<open>Two validators in the crawl, none in the import\<close>

lemma verse_tuple_accepts_iff:
  "(\<exists>row. verse_tuple env meta tid key verse_data = Inr (Some row)) \<longleftrightarrow>
     (\<exists>tf s bytes tn lang.
        py_get verse_data (py ''tf'') (JDict []) = Inr tf
        \<and> py_get tf (py ''t'') (JStr []) = Inr (JStr s)
        \<and> \<not> list_all py_isspace s
        \<and> utf8_encode s = Inr bytes
        \<and> py_getitem meta (py ''tn'') = Inr tn
        \<and> py_getitem meta (py ''lang'') = Inr lang)"
proof
  assume "\<exists>row. verse_tuple env meta tid key verse_data = Inr (Some row)"
  then show "\<exists>tf s bytes tn lang.
        py_get verse_data (py ''tf'') (JDict []) = Inr tf
        \<and> py_get tf (py ''t'') (JStr []) = Inr (JStr s)
        \<and> \<not> list_all py_isspace s
        \<and> utf8_encode s = Inr bytes
        \<and> py_getitem meta (py ''tn'') = Inr tn
        \<and> py_getitem meta (py ''lang'') = Inr lang"
    by (auto simp: verse_tuple_def calculate_data_hash_def py_strip_empty_iff
             split: sum.splits if_splits json.splits)
next
  assume "\<exists>tf s bytes tn lang.
        py_get verse_data (py ''tf'') (JDict []) = Inr tf
        \<and> py_get tf (py ''t'') (JStr []) = Inr (JStr s)
        \<and> \<not> list_all py_isspace s
        \<and> utf8_encode s = Inr bytes
        \<and> py_getitem meta (py ''tn'') = Inr tn
        \<and> py_getitem meta (py ''lang'') = Inr lang"
  then obtain tf s bytes tn lang where
    a: "py_get verse_data (py ''tf'') (JDict []) = Inr tf"
      "py_get tf (py ''t'') (JStr []) = Inr (JStr s)"
      "\<not> list_all py_isspace s"
      "utf8_encode s = Inr bytes"
      "py_getitem meta (py ''tn'') = Inr tn"
      "py_getitem meta (py ''lang'') = Inr lang"
    by blast
  from a(1) obtain entries where v: "verse_data = JDict entries"
    by (cases verse_data) simp_all
  from a(5) obtain m where m: "meta = JDict m"
    by (cases meta) simp_all
  from a show "\<exists>row. verse_tuple env meta tid key verse_data = Inr (Some row)"
    unfolding v m
    by (simp add: verse_tuple_def calculate_data_hash_def py_strip_empty_iff)
qed

lemma scrape_invalid_verse:
  "\<not> scraper_validate_verse_reference chapter verse \<Longrightarrow>
     scrape_verse_tafsir w info chapter verse =
       (None, [Logged (Invalid_verse_reference chapter verse)])"
  by (simp add: scrape_verse_tafsir_def)

lemma chapter_115_invalid:
  "\<not> scraper_validate_verse_reference 115 1" "\<not> validate_verse_reference 115 1"
  by (simp_all add: scraper_validate_verse_reference_def validate_verse_reference_def)

lemma out_of_range_import:
  "import_tafsir_verses all_commit 1000
     (edition_document test_meta test_chs [out_of_range_verse]) [] =
   Inr \<lparr>verses_batch = [test_row (py ''115:1'') 115 1 (py ''text'')],
        total_imported = 1, total_skipped = 0,
        translation_rows = [test_row (py ''115:1'') 115 1 (py ''text'')],
        submitted = [[test_row (py ''115:1'') 115 1 (py ''text'')]]\<rparr>"
  unfolding import_tafsir_verses_document [OF test_meta_parts] out_of_range_verse_def
  by (simp add: process_verse_appends [OF test_verse_row] py_isspace_def all_commit_sel
        submit_batch_def import_verses_batch_commits test_row_insertable insert_or_replace_def)

text \<open>
  C9, as the code has it. There are two validators over two copies of the table: the
  method of the scraper over \<open>QURAN_CHAPTERS\<close> and the function of config_utils.py over
  \<open>VERSE_COUNTS\<close>. The two tables hold the same counts, so the two validators agree on
  every pair. The crawl applies the scraper's method before it builds a URL: for an
  invalid reference it returns nothing and requests nothing. The import applies no
  validator: whether the loop accepts an entry is decided by its tafsir text and by the
  \<^verbatim>\<open>tn\<close> and \<^verbatim>\<open>lang\<close> of the metadata alone, not by its key or its chapter and verse
  numbers.
\<close>

theorem validators_agree_import_has_none:
  "scraper_validate_verse_reference chapter verse = validate_verse_reference chapter verse
   \<and> map (\<lambda>(c, e). (c, snd e)) QURAN_CHAPTERS = VERSE_COUNTS
   \<and> (\<not> scraper_validate_verse_reference chapter verse \<longrightarrow>
        scrape_verse_tafsir w info chapter verse =
          (None, [Logged (Invalid_verse_reference chapter verse)]))
   \<and> ((\<exists>row. verse_tuple env meta tid key verse_data = Inr (Some row)) \<longleftrightarrow>
        (\<exists>tf s bytes tn lang.
           py_get verse_data (py ''tf'') (JDict []) = Inr tf
           \<and> py_get tf (py ''t'') (JStr []) = Inr (JStr s)
           \<and> \<not> list_all py_isspace s
           \<and> utf8_encode s = Inr bytes
           \<and> py_getitem meta (py ''tn'') = Inr tn
           \<and> py_getitem meta (py ''lang'') = Inr lang))"
  using validators_agree [of "chapter" verse] QURAN_CHAPTERS_counts
    scrape_invalid_verse [of "chapter" verse w info]
    verse_tuple_accepts_iff [of env meta tid key verse_data]
  by blast

theorem validators_agree_import_has_none_witness:
  "\<not> scraper_validate_verse_reference 115 1
   \<and> scrape_verse_tafsir missing_site first_book 115 1 =
       (None, [Logged (Invalid_verse_reference 115 1)])
   \<and> scraper_validate_verse_reference 2 286 = validate_verse_reference 2 286
   \<and> (\<exists>row. verse_tuple all_commit test_meta (JInt 9001) (py ''115:1'')
               (snd out_of_range_verse) = Inr (Some row))"
proof -
  note t = validators_agree_import_has_none
             [of 115 1 missing_site first_book all_commit test_meta "JInt 9001" "py ''115:1''"
                 "snd out_of_range_verse"]
  note u = validators_agree_import_has_none
             [of 2 286 missing_site first_book all_commit test_meta "JInt 9001" "py ''115:1''"
                 "snd out_of_range_verse"]
  have "verse_tuple all_commit test_meta (JInt 9001) (py ''115:1'') (snd out_of_range_verse)
          = Inr (Some (test_row (py ''115:1'') 115 1 (py ''text'')))"
    using test_verse_row [of "''text''" all_commit "py ''115:1''" 115 1]
    by (simp add: py_isspace_def all_commit_sel out_of_range_verse_def test_verse_def)
  with t u chapter_115_invalid(1) show ?thesis
    by blast
qed

text \<open>
  Against C9 as stated: both validators reject chapter 115, verse 1, and the import
  accepts the entry filed under \<^verbatim>\<open>115:1\<close> and stores it.
\<close>

theorem import_accepts_invalid_reference:
  "\<not> scraper_validate_verse_reference 115 1
   \<and> \<not> validate_verse_reference 115 1
   \<and> returned_counts
        (import_tafsir_verses all_commit 1000
           (edition_document test_meta test_chs [out_of_range_verse]) []) = Inr (1, 0)
   \<and> stored_keys
        (import_tafsir_verses all_commit 1000
           (edition_document test_meta test_chs [out_of_range_verse]) []) = Inr [py ''115:1'']"
  unfolding out_of_range_import
  by (simp add: chapter_115_invalid returned_counts_def stored_keys_def)

section \<open>The fetcher\<close>

lemma requests_append [simp]: "requests (a @ b) = requests a + requests b"
  by (simp add: requests_def)

lemma requests_simps [simp]:
  "requests [] = 0"
  "requests (Requested url # tr) = Suc (requests tr)"
  "requests (Slept_delay # tr) = requests tr"
  "requests (Slept n # tr) = requests tr"
  "requests (Logged line # tr) = requests tr"
  by (simp_all add: requests_def)

lemma fetch_attempts_not_found:
  assumes "\<forall>a \<in> set before. transient (get (nat a))"
    and "get (nat attempt) = Response 404 body"
  shows "fst (fetch_attempts get url max_retries (before @ attempt # rest) tr) = None
         \<and> requests (snd (fetch_attempts get url max_retries (before @ attempt # rest) tr)) =
             requests tr + length before + 1
         \<and> last (snd (fetch_attempts get url max_retries (before @ attempt # rest) tr)) =
             Logged (Url_not_found url)"
  using assms
proof (induction before arbitrary: tr)
  case Nil
  then show ?case by (simp add: Let_def)
next
  case (Cons a before)
  from Cons.prems have t: "transient (get (nat a))"
    by simp
  from Cons.prems have rest: "\<forall>a \<in> set before. transient (get (nat a))"
    by simp
  show ?case
  proof (cases "get (nat a)")
    case (Response status_code content)
    with t show ?thesis
      using Cons.IH [OF rest Cons.prems(2)]
      by (cases "status_code = 200") (simp_all add: Let_def)
  next
    case Timeout_error
    then show ?thesis
      using Cons.IH [OF rest Cons.prems(2)] by (simp add: Let_def)
  next
    case Client_error
    then show ?thesis
      using Cons.IH [OF rest Cons.prems(2)] by (simp add: Let_def)
  qed
qed

lemma fetch_attempts_exhausted:
  assumes "\<forall>a \<in> set attempts. transient (get (nat a))"
  shows "fst (fetch_attempts get url max_retries attempts tr) = None
         \<and> requests (snd (fetch_attempts get url max_retries attempts tr)) =
             requests tr + length attempts
         \<and> last (snd (fetch_attempts get url max_retries attempts tr)) =
             Logged (Failed_to_fetch url max_retries)"
  using assms
proof (induction attempts arbitrary: tr)
  case Nil
  then show ?case by simp
next
  case (Cons a attempts)
  from Cons.prems have t: "transient (get (nat a))"
    by simp
  from Cons.prems have rest: "\<forall>a \<in> set attempts. transient (get (nat a))"
    by simp
  show ?case
  proof (cases "get (nat a)")
    case (Response status_code content)
    with t show ?thesis
      using Cons.IH [OF rest]
      by (cases "status_code = 200") (simp_all add: Let_def)
  next
    case Timeout_error
    then show ?thesis
      using Cons.IH [OF rest] by (simp add: Let_def)
  next
    case Client_error
    then show ?thesis
      using Cons.IH [OF rest] by (simp add: Let_def)
  qed
qed

lemma fetch_with_retry_not_found:
  assumes "0 \<le> k" "k < max_retries"
    and "\<forall>j. 0 \<le> j \<and> j < k \<longrightarrow> transient (get (nat j))"
    and "get (nat k) = Response 404 body"
  shows "fst (fetch_with_retry get url max_retries) = None
         \<and> requests (snd (fetch_with_retry get url max_retries)) = nat k + 1
         \<and> last (snd (fetch_with_retry get url max_retries)) = Logged (Url_not_found url)"
proof -
  have split: "[0..max_retries - 1] = [0..k - 1] @ k # [k + 1..max_retries - 1]"
    using assms(1,2) by (intro upto_split3) simp_all
  have before: "\<forall>a \<in> set [0..k - 1]. transient (get (nat a))"
    using assms(3) by simp
  have len: "length [0..k - 1] = nat k"
    using assms(1) by simp
  show ?thesis
    unfolding fetch_with_retry_def split
    using fetch_attempts_not_found [OF before assms(4), of url max_retries
            "[k + 1..max_retries - 1]" "[]"] len
    by simp
qed

lemma fetch_with_retry_exhausted:
  assumes "\<forall>j. 0 \<le> j \<and> j < max_retries \<longrightarrow> transient (get (nat j))"
  shows "fst (fetch_with_retry get url max_retries) = None
         \<and> requests (snd (fetch_with_retry get url max_retries)) = nat max_retries
         \<and> last (snd (fetch_with_retry get url max_retries)) =
             Logged (Failed_to_fetch url max_retries)"
proof -
  have all: "\<forall>a \<in> set [0..max_retries - 1]. transient (get (nat a))"
    using assms by simp
  show ?thesis
    unfolding fetch_with_retry_def
    using fetch_attempts_exhausted [OF all, of url max_retries "[]"]
    by simp
qed

text \<open>
  C7, as the code has it. A 404 response ends the retry loop: when attempt \<open>k\<close> is the
  first that does not fail transiently and it is answered with 404, exactly \<open>k + 1\<close>
  requests are made for the URL and the last thing the fetcher does is to log that the
  URL was not found. The value returned is \<^verbatim>\<open>None\<close>. When every attempt fails
  transiently, \<open>max_retries\<close> requests are made, the failure is logged and the value
  returned is \<^verbatim>\<open>None\<close> as well: the two outcomes differ in the log line only.
\<close>

theorem not_found_is_terminal_and_returns_none:
  "(0 \<le> k \<and> k < max_retries
      \<and> (\<forall>j. 0 \<le> j \<and> j < k \<longrightarrow> transient (get (nat j)))
      \<and> get (nat k) = Response 404 body \<longrightarrow>
        fst (fetch_with_retry get url max_retries) = None
        \<and> requests (snd (fetch_with_retry get url max_retries)) = nat k + 1
        \<and> last (snd (fetch_with_retry get url max_retries)) = Logged (Url_not_found url))
   \<and> ((\<forall>j. 0 \<le> j \<and> j < max_retries \<longrightarrow> transient (get (nat j))) \<longrightarrow>
        fst (fetch_with_retry get url max_retries) = None
        \<and> requests (snd (fetch_with_retry get url max_retries)) = nat max_retries
        \<and> last (snd (fetch_with_retry get url max_retries)) =
            Logged (Failed_to_fetch url max_retries))"
  using fetch_with_retry_not_found [of k max_retries get body url]
    fetch_with_retry_exhausted [of max_retries get url]
  by blast

theorem not_found_is_terminal_and_returns_none_witness:
  "always_404 (nat 0) = Response 404 None
   \<and> fst (fetch_with_retry always_404 (py ''https://www.altafsir.com/a/chapter/1/verse/1'') 3)
       = None
   \<and> requests
        (snd (fetch_with_retry always_404
                (py ''https://www.altafsir.com/a/chapter/1/verse/1'') 3)) = 1
   \<and> last (snd (fetch_with_retry always_404
                  (py ''https://www.altafsir.com/a/chapter/1/verse/1'') 3)) =
       Logged (Url_not_found (py ''https://www.altafsir.com/a/chapter/1/verse/1''))
   \<and> transient (always_500 0) \<and> transient (always_500 1) \<and> transient (always_500 2)
   \<and> fst (fetch_with_retry always_500 (py ''https://www.altafsir.com/a/chapter/1/verse/1'') 3)
       = None
   \<and> requests
        (snd (fetch_with_retry always_500
                (py ''https://www.altafsir.com/a/chapter/1/verse/1'') 3)) = 3"
  using not_found_is_terminal_and_returns_none
          [of 0 3 always_404 None "py ''https://www.altafsir.com/a/chapter/1/verse/1''"]
        not_found_is_terminal_and_returns_none
          [of 0 3 always_500 None "py ''https://www.altafsir.com/a/chapter/1/verse/1''"]
  by (simp add: always_404_def always_500_def)

text \<open>
  Against C7 as stated: the result for a URL that is answered with 404 and the result
  for a URL whose three attempts all fail with status 500 are the same value.
\<close>

theorem not_found_result_equals_unavailable_result:
  "fst (fetch_with_retry always_404 (py ''https://www.altafsir.com/a/chapter/1/verse/1'') 3)
     = fst (fetch_with_retry always_500
              (py ''https://www.altafsir.com/a/chapter/1/verse/1'') 3)
   \<and> fst (fetch_with_retry always_404 (py ''https://www.altafsir.com/a/chapter/1/verse/1'') 3)
       = None"
  using fetch_with_retry_not_found
          [of 0 3 always_404 None "py ''https://www.altafsir.com/a/chapter/1/verse/1''"]
        fetch_with_retry_exhausted
          [of 3 always_500 "py ''https://www.altafsir.com/a/chapter/1/verse/1''"]
  by (simp add: always_404_def always_500_def)

section \<open>The chapter loop of the crawl\<close>

lemma QURAN_CHAPTERS_keys: "map fst QURAN_CHAPTERS = [1..114]"
  using VERSE_COUNTS_keys unfolding QURAN_CHAPTERS_counts [symmetric]
  by (simp add: case_prod_beta comp_def)

lemma QURAN_CHAPTERS_total:
  assumes "1 \<le> c" "c \<le> 114"
  shows "\<exists>ch_name verse_count. map_of QURAN_CHAPTERS c = Some (ch_name, verse_count)"
proof -
  from assms have "c \<in> set (map fst QURAN_CHAPTERS)"
    unfolding QURAN_CHAPTERS_keys by simp
  then have "map_of QURAN_CHAPTERS c \<noteq> None"
    by (simp add: map_of_eq_None_iff)
  then show ?thesis by auto
qed

lemma chapters_info_total:
  "\<forall>c \<in> set cs. 1 \<le> c \<and> c \<le> 114 \<Longrightarrow> \<exists>chapters. chapters_info cs = Inr chapters"
proof (induction cs)
  case Nil
  then show ?case by simp
next
  case (Cons c cs)
  then obtain chapters where "chapters_info cs = Inr chapters"
    by auto
  moreover from Cons.prems obtain ch_name verse_count
    where "map_of QURAN_CHAPTERS c = Some (ch_name, verse_count)"
    using QURAN_CHAPTERS_total [of c] by auto
  ultimately show ?case by simp
qed

lemma chapters_scraped_append [simp]:
  "chapters_scraped (a @ b) = chapters_scraped a @ chapters_scraped b"
  by (simp add: chapters_scraped_def map_filter_def)

lemma chapters_scraped_Nil [simp]: "chapters_scraped [] = []"
  by (simp add: chapters_scraped_def)

lemma chapters_scraped_Cons:
  "chapters_scraped (e # tr) =
     (case scraped_chapter e of None \<Rightarrow> chapters_scraped tr | Some c \<Rightarrow> c # chapters_scraped tr)"
  by (simp add: chapters_scraped_def split: option.splits)

lemma chapters_scraped_concat:
  "\<forall>tr \<in> set trs. chapters_scraped tr = [] \<Longrightarrow> chapters_scraped (concat trs) = []"
  by (induction trs) simp_all

lemma chapters_scraped_fetch_attempts:
  "chapters_scraped (snd (fetch_attempts get url max_retries attempts tr)) =
     chapters_scraped tr"
proof (induction attempts arbitrary: tr)
  case Nil
  then show ?case by (simp add: chapters_scraped_Cons)
next
  case (Cons a attempts)
  show ?case
  proof (cases "get (nat a)")
    case (Response status_code content)
    then show ?thesis
      using Cons.IH
      by (cases content) (simp_all add: Let_def chapters_scraped_Cons)
  next
    case Timeout_error
    then show ?thesis
      using Cons.IH by (simp add: Let_def chapters_scraped_Cons)
  next
    case Client_error
    then show ?thesis
      using Cons.IH by (simp add: Let_def chapters_scraped_Cons)
  qed
qed

lemma chapters_scraped_verse:
  "chapters_scraped (snd (scrape_verse_tafsir w info chapter verse)) = []"
proof -
  have f: "chapters_scraped (snd (fetch_with_retry get url 3)) = []" for get url
    unfolding fetch_with_retry_def by (simp add: chapters_scraped_fetch_attempts)
  show ?thesis
    using f [of "http_get w (info_url info @ py ''/chapter/'' @ py_str_int chapter
                   @ py ''/verse/'' @ py_str_int verse)"
                "info_url info @ py ''/chapter/'' @ py_str_int chapter
                   @ py ''/verse/'' @ py_str_int verse"]
    by (auto simp: scrape_verse_tafsir_def Let_def chapters_scraped_Cons
             split: prod.splits option.splits sum.splits)
qed

lemma chapters_scraped_chapter:
  "chapters_scraped (snd (scrape_chapter w info chapter)) = [chapter]"
proof (cases "map_of QURAN_CHAPTERS chapter")
  case None
  then show ?thesis
    by (simp add: scrape_chapter_def chapters_scraped_Cons)
next
  case (Some entry)
  obtain chapter_name verse_count where e: "entry = (chapter_name, verse_count)"
    by (cases entry)
  have "chapters_scraped
          (concat (map (\<lambda>(verse, result). snd result)
             (map (\<lambda>verse. (verse, scrape_verse_tafsir w info chapter verse))
                [1..verse_count]))) = []"
    by (rule chapters_scraped_concat) (auto simp: chapters_scraped_verse)
  with Some e show ?thesis
    by (simp add: scrape_chapter_def Let_def chapters_scraped_Cons)
qed

lemma scraper_save_progress_fields:
  "progress_data (scraper_save_progress w s) = progress_data s"
  "chapters_scraped (events (scraper_save_progress w s)) = chapters_scraped (events s)"
proof -
  obtain returned f logged
    where r: "save_progress (write_outcome_of w (saves s)) (progress_data s) (progress_file s)
                = (returned, f, logged)"
    by (cases "save_progress (write_outcome_of w (saves s)) (progress_data s)
                 (progress_file s)") auto
  then have "logged = [] \<or> (\<exists>e. logged = [Could_not_save_progress e])"
    by (auto simp: save_progress_def split: prod.splits sum.splits)
  then have "chapters_scraped (map Logged logged) = []"
    by (auto simp: chapters_scraped_Cons)
  with r show "chapters_scraped (events (scraper_save_progress w s)) =
                 chapters_scraped (events s)"
    by (simp add: scraper_save_progress_def)
  from r show "progress_data (scraper_save_progress w s) = progress_data s"
    by (simp add: scraper_save_progress_def)
qed

lemma scrape_chapter_step_skips:
  assumes "chapter \<in> set (get_list (completed_chapters (progress_data s)))"
  shows "progress_data (fst (scrape_chapter_step w info (s, all_verses) chapter)) =
           progress_data s"
    and "chapters_scraped (events (fst (scrape_chapter_step w info (s, all_verses) chapter))) =
           chapters_scraped (events s)"
  using assms by (simp_all add: scrape_chapter_step_def chapters_scraped_Cons)

lemma scrape_chapter_step_scrapes:
  assumes "chapter \<notin> set (get_list (completed_chapters (progress_data s)))"
  shows "completed_chapters
           (progress_data (fst (scrape_chapter_step w info (s, all_verses) chapter))) =
           Some (get_list (completed_chapters (progress_data s)) @ [chapter])"
    and "completed_tafasir
           (progress_data (fst (scrape_chapter_step w info (s, all_verses) chapter))) =
           completed_tafasir (progress_data s)"
    and "chapters_scraped (events (fst (scrape_chapter_step w info (s, all_verses) chapter))) =
           chapters_scraped (events s) @ [chapter]"
proof -
  obtain chapter_verses tr where c: "scrape_chapter w info chapter = (chapter_verses, tr)"
    by (cases "scrape_chapter w info chapter")
  then have tr: "chapters_scraped tr = [chapter]"
    using chapters_scraped_chapter [of w info "chapter"] by simp
  from assms c
  show "completed_chapters
           (progress_data (fst (scrape_chapter_step w info (s, all_verses) chapter))) =
           Some (get_list (completed_chapters (progress_data s)) @ [chapter])"
    by (cases "completed_chapters (progress_data s)")
       (simp_all add: scrape_chapter_step_def Let_def scraper_save_progress_fields get_list_def)
  from assms c
  show "completed_tafasir
           (progress_data (fst (scrape_chapter_step w info (s, all_verses) chapter))) =
           completed_tafasir (progress_data s)"
    by (simp add: scrape_chapter_step_def Let_def scraper_save_progress_fields)
  from assms c tr
  show "chapters_scraped (events (fst (scrape_chapter_step w info (s, all_verses) chapter))) =
           chapters_scraped (events s) @ [chapter]"
    by (simp add: scrape_chapter_step_def Let_def scraper_save_progress_fields)
qed

lemma chapter_loop:
  assumes "distinct chapters"
  shows "chapters_scraped
           (events (fst (foldl (scrape_chapter_step w info) (s, all_verses) chapters))) =
         chapters_scraped (events s)
           @ filter (\<lambda>c. c \<notin> set (get_list (completed_chapters (progress_data s)))) chapters"
  using assms
proof (induction chapters arbitrary: s all_verses)
  case Nil
  then show ?case by simp
next
  case (Cons c chapters)
  obtain s1 all_verses1
    where step: "scrape_chapter_step w info (s, all_verses) c = (s1, all_verses1)"
    by (cases "scrape_chapter_step w info (s, all_verses) c")
  from Cons.prems have d: "distinct chapters" and fresh: "c \<notin> set chapters"
    by simp_all
  show ?case
  proof (cases "c \<in> set (get_list (completed_chapters (progress_data s)))")
    case True
    with step have "progress_data s1 = progress_data s"
      and "chapters_scraped (events s1) = chapters_scraped (events s)"
      using scrape_chapter_step_skips [of c s w info all_verses] by simp_all
    with True step show ?thesis
      using Cons.IH [OF d, of s1 all_verses1] by simp
  next
    case False
    with step have cc: "completed_chapters (progress_data s1) =
                         Some (get_list (completed_chapters (progress_data s)) @ [c])"
      and e: "chapters_scraped (events s1) = chapters_scraped (events s) @ [c]"
      using scrape_chapter_step_scrapes [of c s w info all_verses] by simp_all
    have "filter (\<lambda>x. x \<notin> set (get_list (completed_chapters (progress_data s1)))) chapters =
          filter (\<lambda>x. x \<notin> set (get_list (completed_chapters (progress_data s)))) chapters"
      unfolding cc using fresh
      by (intro filter_cong) (auto simp: get_list_def)
    with False step e show ?thesis
      using Cons.IH [OF d, of s1 all_verses1] by simp
  qed
qed

lemma scrape_complete_tafsir_chapters:
  "chapters_scraped (events (snd (scrape_complete_tafsir w info start_chapter end_chapter s))) =
     chapters_scraped (events s)
       @ filter (\<lambda>c. c \<notin> set (get_list (completed_chapters (progress_data s))))
           [start_chapter..end_chapter]"
proof -
  obtain chapters where ch: "chapters_info [1..114] = Inr chapters"
    using chapters_info_total [of "[1..114]"] by auto
  have "distinct [start_chapter..end_chapter]"
    by simp
  then show ?thesis
    using chapter_loop [of "[start_chapter..end_chapter]" w info s "[]"]
    by (simp add: scrape_complete_tafsir_def ch case_prod_beta)
qed

section \<open>Restarting the crawl\<close>

lemma chapter_loop_completed_tafasir:
  "completed_tafasir
     (progress_data (fst (foldl (scrape_chapter_step w info) (s, all_verses) chapters))) =
   completed_tafasir (progress_data s)"
proof (induction chapters arbitrary: s all_verses)
  case Nil
  then show ?case by simp
next
  case (Cons c chapters)
  obtain s1 all_verses1
    where step: "scrape_chapter_step w info (s, all_verses) c = (s1, all_verses1)"
    by (cases "scrape_chapter_step w info (s, all_verses) c")
  have "completed_tafasir (progress_data s1) = completed_tafasir (progress_data s)"
  proof (cases "c \<in> set (get_list (completed_chapters (progress_data s)))")
    case True
    with step show ?thesis
      using scrape_chapter_step_skips(1) [of c s w info all_verses] by simp
  next
    case False
    with step show ?thesis
      using scrape_chapter_step_scrapes(2) [of c s w info all_verses] by simp
  qed
  with step show ?case
    using Cons.IH [of s1 all_verses1] by simp
qed

lemma scrape_complete_tafsir_returns:
  "\<exists>document. fst (scrape_complete_tafsir w info start_chapter end_chapter s) = Inr document"
proof -
  obtain chapters where ch: "chapters_info [1..114] = Inr chapters"
    using chapters_info_total [of "[1..114]"] by auto
  then show ?thesis
    by (simp add: scrape_complete_tafsir_def case_prod_beta)
qed

lemma scrape_complete_tafsir_completed_tafasir:
  "completed_tafasir
     (progress_data (snd (scrape_complete_tafsir w info start_chapter end_chapter s))) =
   completed_tafasir (progress_data s)"
proof -
  obtain chapters where ch: "chapters_info [1..114] = Inr chapters"
    using chapters_info_total [of "[1..114]"] by auto
  then show ?thesis
    using chapter_loop_completed_tafasir [of w info s "[]" "[start_chapter..end_chapter]"]
    by (simp add: scrape_complete_tafsir_def case_prod_beta)
qed

lemma run_scraper_step_scrapes:
  assumes "info_id info \<notin> set (get_list (completed_tafasir (progress_data s)))"
  shows "chapters_scraped (events (fst (run_scraper_step w (s, saved) info))) =
           chapters_scraped (events s)
             @ filter (\<lambda>c. c \<notin> set (get_list (completed_chapters (progress_data s))))
                 [1..114]"
    and "completed_tafasir (progress_data (fst (run_scraper_step w (s, saved) info))) =
           Some (get_list (completed_tafasir (progress_data s)) @ [info_id info])"
proof -
  let ?s1 = "scraper_save_progress w
               (s\<lparr>progress_data := (progress_data s)\<lparr>current_tafsir := Some info\<rparr>\<rparr>)"
  obtain result s2 where r: "scrape_complete_tafsir w info 1 114 ?s1 = (result, s2)"
    by (cases "scrape_complete_tafsir w info 1 114 ?s1")
  then obtain document where d: "result = Inr document"
    using scrape_complete_tafsir_returns [of w info 1 114 ?s1] by auto
  have e: "chapters_scraped (events s2) =
             chapters_scraped (events s)
               @ filter (\<lambda>c. c \<notin> set (get_list (completed_chapters (progress_data s))))
                   [1..114]"
    using scrape_complete_tafsir_chapters [of w info 1 114 ?s1] r
    by (simp add: scraper_save_progress_fields)
  have t: "completed_tafasir (progress_data s2) = completed_tafasir (progress_data s)"
    using scrape_complete_tafsir_completed_tafasir [of w info 1 114 ?s1] r
    by (simp add: scraper_save_progress_fields)
  from assms r d e
  show "chapters_scraped (events (fst (run_scraper_step w (s, saved) info))) =
           chapters_scraped (events s)
             @ filter (\<lambda>c. c \<notin> set (get_list (completed_chapters (progress_data s))))
                 [1..114]"
    by (simp add: run_scraper_step_def Let_def scraper_save_progress_fields)
  from assms r d t
  show "completed_tafasir (progress_data (fst (run_scraper_step w (s, saved) info))) =
           Some (get_list (completed_tafasir (progress_data s)) @ [info_id info])"
    by (cases "completed_tafasir (progress_data s)")
       (simp_all add: run_scraper_step_def Let_def scraper_save_progress_fields get_list_def)
qed

lemma chapters_after_two: "filter (\<lambda>c. c \<notin> set [1, 2]) [1..114] = [3..114]"
proof -
  have "[1..114] = 1 # 2 # [3..114]"
    using upto_rec1 [of 1 114] upto_rec1 [of 2 114] by simp
  moreover have "filter (\<lambda>c. c \<notin> set [1, 2]) [3..114] = [3..114]"
    by (simp add: filter_id_conv)
  ultimately show ?thesis by simp
qed

lemma restarted_run:
  "run_scraper missing_site [first_book, second_book] (Some [5001]) None restarted_scraper =
     run_scraper_step missing_site (restarted_scraper, []) second_book"
  by (simp add: run_scraper_def first_book_def second_book_def)

text \<open>
  C2 at a restart for another edition. The progress file was left by a crawl of edition
  5000 that was interrupted after chapters 1 and 2. The crawl is started again for
  edition 5001 only. It does not start fresh: chapters 1 and 2 of edition 5001 are never
  scraped, the crawl runs over chapters 3 to 114, and edition 5001 is then recorded as
  completed.
\<close>

theorem restart_for_other_edition_skips_chapters:
  "current_tafsir (progress_data restarted_scraper) = Some first_book
   \<and> completed_chapters (progress_data restarted_scraper) = Some [1, 2]
   \<and> info_id first_book = 5000 \<and> info_id second_book = 5001
   \<and> chapters_scraped
        (events (fst (run_scraper missing_site [first_book, second_book] (Some [5001]) None
                        restarted_scraper))) = [3..114]
   \<and> completed_tafasir
        (progress_data (fst (run_scraper missing_site [first_book, second_book] (Some [5001])
                               None restarted_scraper))) = Some [5001]"
proof -
  have p: "completed_chapters (progress_data restarted_scraper) = Some [1, 2]"
    "completed_tafasir (progress_data restarted_scraper) = Some []"
    "current_tafsir (progress_data restarted_scraper) = Some first_book"
    "events restarted_scraper = []"
    by (simp_all add: restarted_scraper_def interrupted_progress_def)
  have i: "info_id first_book = 5000" "info_id second_book = 5001"
    by (simp_all add: first_book_def second_book_def)
  have n: "info_id second_book
             \<notin> set (get_list (completed_tafasir (progress_data restarted_scraper)))"
    by (simp add: p get_list_def)
  show ?thesis
    unfolding restarted_run
    using run_scraper_step_scrapes [OF n, of missing_site "[]"] chapters_after_two
    by (simp add: p i get_list_def)
qed

end
